theory Spec2Isabelle
  imports Complex_Main "HOL-Library.Sublist"
begin

section \<open>JavaScript values as the dashboard code sees them\<close>

text \<open>
  The browser code (\<^verbatim>\<open>app.js\<close>, classes \<^verbatim>\<open>ExcelProcessor\<close> and
  \<^verbatim>\<open>DealComparisonDashboard\<close>) works on the cells that the spreadsheet reader
  hands over and on the JSON the comparison endpoint returns. A cell is one of the
  JavaScript values below. Finite numbers are exact rationals and \<open>NaN\<close> is a value of
  its own; the two infinities, negative zero and the rounding of IEEE doubles are not
  represented. A \<^verbatim>\<open>Date\<close> object is its time value in milliseconds since the epoch
  (\<open>None\<close> for an invalid date).
\<close>

datatype jsval =
    Undefined
  | Null
  | Bool bool
  | NaN
  | Num rat
  | Str string
  | DateV "int option"

text \<open>Truthiness, as \<^verbatim>\<open>if (v)\<close>, \<^verbatim>\<open>!v\<close> and \<^verbatim>\<open>v || w\<close> test it.\<close>

fun truthy :: "jsval \<Rightarrow> bool" where
  "truthy Undefined = False"
| "truthy Null = False"
| "truthy (Bool b) = b"
| "truthy NaN = False"
| "truthy (Num r) = (r \<noteq> 0)"
| "truthy (Str s) = (s \<noteq> [])"
| "truthy (DateV t) = True"

definition js_or :: "jsval \<Rightarrow> jsval \<Rightarrow> jsval" where
  "js_or a b = (if truthy a then a else b)"

text \<open>\<^verbatim>\<open>xs[i]\<close> on an array: \<^verbatim>\<open>undefined\<close> past the end.\<close>

definition js_index :: "'a list \<Rightarrow> nat \<Rightarrow> 'a option" where
  "js_index xs i = (if i < length xs then Some (xs ! i) else None)"

definition cell :: "jsval list \<Rightarrow> nat \<Rightarrow> jsval" where
  "cell row i = (case js_index row i of None \<Rightarrow> Undefined | Some v \<Rightarrow> v)"

section \<open>Workbook validation (\<^verbatim>\<open>ExcelProcessor.validateFile\<close>)\<close>

text \<open>
  A worksheet as the validation reads it: the last column index of its \<^verbatim>\<open>'!ref'\<close>
  range (\<^verbatim>\<open>XLSX.utils.decode_range(sheet['!ref']).e.c\<close>; \<open>None\<close> when the sheet has
  no \<^verbatim>\<open>'!ref'\<close>, where \<^verbatim>\<open>decode_range\<close> raises a \<^verbatim>\<open>TypeError\<close>) and the rows
  that \<^verbatim>\<open>XLSX.utils.sheet_to_json(sheet, {header: 1})\<close> returns. A workbook has the
  list \<^verbatim>\<open>SheetNames\<close> and the object \<^verbatim>\<open>Sheets\<close>, a map from names to sheets (own
  properties only).
\<close>

record sheet =
  ref_e_c :: "nat option"
  json_rows :: "jsval list list"

record workbook =
  SheetNames :: "string list"
  Sheets :: "string \<rightharpoonup> sheet"

text \<open>\<^verbatim>\<open>getSettings()\<close>: the five input fields of the page, each a string.\<close>

record settings =
  outputSheetName :: string
  rawSheet1Name :: string
  rawSheet2Name :: string
  rawSheet3Name :: string
  dealColumnName :: string

text \<open>
  The errors \<^verbatim>\<open>validateFile\<close> can raise. \<open>SheetNotFound n name\<close> is
  \<^verbatim>\<open>Error('Raw Sheet n "name" not found')\<close>, \<open>ColumnNotFound col name\<close> is
  \<^verbatim>\<open>Error('Required column col not found in sheet name')\<close>, \<open>NoDataRow\<close> is
  \<^verbatim>\<open>Error('Raw Sheet 1 must have at least one data row')\<close>, and \<open>TypeError\<close> is
  what reading \<^verbatim>\<open>'!ref'\<close> of a sheet without a range ends in.
\<close>

datatype validation_error =
    SheetNotFound nat string
  | ColumnNotFound string string
  | NoDataRow
  | TypeError

text \<open>
  \<^verbatim>\<open>XLSX.utils.decode_col\<close> of the spreadsheet library: a column's letters read as a
  bijective base-26 numeral, zero-based (\<^verbatim>\<open>d = 26*d + charCode - 64\<close> per letter, then
  \<^verbatim>\<open>d - 1\<close>).
\<close>

definition decode_col :: "string \<Rightarrow> int" where
  "decode_col col = foldl (\<lambda>d c. 26 * d + int (of_char c) - 64) 0 col - 1"

text \<open>\<^verbatim>\<open>settings.rawSheetNName || sheetNames[N-1]\<close>: a string, or \<^verbatim>\<open>undefined\<close>.\<close>

definition sheet_choice :: "string \<Rightarrow> string option \<Rightarrow> string option" where
  "sheet_choice override dflt = (if override \<noteq> [] then Some override else dflt)"

text \<open>A property key: \<^verbatim>\<open>Sheets[undefined]\<close> reads the property named "undefined".\<close>

definition property_key :: "string option \<Rightarrow> string" where
  "property_key k = (case k of None \<Rightarrow> ''undefined'' | Some s \<Rightarrow> s)"

definition rawSheet1 :: "settings \<Rightarrow> workbook \<Rightarrow> string option" where
  "rawSheet1 st wb = sheet_choice (rawSheet1Name st) (js_index (SheetNames wb) 0)"

definition rawSheet2 :: "settings \<Rightarrow> workbook \<Rightarrow> string option" where
  "rawSheet2 st wb = sheet_choice (rawSheet2Name st) (js_index (SheetNames wb) 1)"

definition rawSheet3 :: "settings \<Rightarrow> workbook \<Rightarrow> string option" where
  "rawSheet3 st wb = sheet_choice (rawSheet3Name st) (js_index (SheetNames wb) 2)"

definition sheet1_columns :: "string list" where
  "sheet1_columns = [''B'', ''AA'', ''M'', ''L'', ''Q'', ''AB'', ''AD'', ''AL'', ''X'', ''BZ'']"

definition sheet2_columns :: "string list" where
  "sheet2_columns = [''N'', ''AQ'', ''AV'']"

definition sheet3_columns :: "string list" where
  "sheet3_columns = [''M'', ''BR'', ''CN'']"

text \<open>The loop of \<^verbatim>\<open>validateSheetColumns\<close>: the first column past the range raises.\<close>

fun check_columns :: "string \<Rightarrow> nat \<Rightarrow> string list \<Rightarrow> validation_error + unit" where
  "check_columns name ec [] = Inr ()"
| "check_columns name ec (col # cols) =
     (if decode_col col > int ec then Inl (ColumnNotFound col name)
      else check_columns name ec cols)"

definition validateSheetColumns ::
  "workbook \<Rightarrow> string option \<Rightarrow> string list \<Rightarrow> validation_error + unit" where
  "validateSheetColumns wb sheetName requiredColumns =
     (case Sheets wb (property_key sheetName) of
        None \<Rightarrow> Inl TypeError
      | Some sh \<Rightarrow>
          (case ref_e_c sh of
             None \<Rightarrow> Inl TypeError
           | Some ec \<Rightarrow> check_columns (property_key sheetName) ec requiredColumns))"

definition validateFile :: "settings \<Rightarrow> workbook \<Rightarrow> validation_error + unit" where
  "validateFile st wb =
     (let s1 = rawSheet1 st wb; s2 = rawSheet2 st wb; s3 = rawSheet3 st wb in
      if Sheets wb (property_key s1) = None then Inl (SheetNotFound 1 (property_key s1))
      else if Sheets wb (property_key s2) = None then Inl (SheetNotFound 2 (property_key s2))
      else if Sheets wb (property_key s3) = None then Inl (SheetNotFound 3 (property_key s3))
      else
        (case validateSheetColumns wb s1 sheet1_columns of
           Inl e \<Rightarrow> Inl e
         | Inr _ \<Rightarrow>
        (case validateSheetColumns wb s2 sheet2_columns of
           Inl e \<Rightarrow> Inl e
         | Inr _ \<Rightarrow>
        (case validateSheetColumns wb s3 sheet3_columns of
           Inl e \<Rightarrow> Inl e
         | Inr _ \<Rightarrow>
        (case Sheets wb (property_key s1) of
           None \<Rightarrow> Inl TypeError
         | Some sh \<Rightarrow> if length (json_rows sh) < 2 then Inl NoDataRow else Inr ())))))"

subsection \<open>The three failure conditions, as the specification words them\<close>

text \<open>
  A column lies within a sheet's populated column range when the sheet has a range and
  the column's index is at most the range's last column.
\<close>

definition column_populated :: "sheet \<Rightarrow> string \<Rightarrow> bool" where
  "column_populated sh col =
     (case ref_e_c sh of None \<Rightarrow> False | Some ec \<Rightarrow> decode_col col \<le> int ec)"

definition lacks_column :: "workbook \<Rightarrow> string option \<Rightarrow> string list \<Rightarrow> bool" where
  "lacks_column wb name cols =
     (case Sheets wb (property_key name) of
        None \<Rightarrow> False
      | Some sh \<Rightarrow> list_ex (\<lambda>col. \<not> column_populated sh col) cols)"

definition MissingSheet :: "settings \<Rightarrow> workbook \<Rightarrow> bool" where
  "MissingSheet st wb \<longleftrightarrow>
     Sheets wb (property_key (rawSheet1 st wb)) = None \<or>
     Sheets wb (property_key (rawSheet2 st wb)) = None \<or>
     Sheets wb (property_key (rawSheet3 st wb)) = None"

definition MissingColumn :: "settings \<Rightarrow> workbook \<Rightarrow> bool" where
  "MissingColumn st wb \<longleftrightarrow>
     lacks_column wb (rawSheet1 st wb) sheet1_columns \<or>
     lacks_column wb (rawSheet2 st wb) sheet2_columns \<or>
     lacks_column wb (rawSheet3 st wb) sheet3_columns"

definition InsufficientRows :: "settings \<Rightarrow> workbook \<Rightarrow> bool" where
  "InsufficientRows st wb \<longleftrightarrow>
     (case Sheets wb (property_key (rawSheet1 st wb)) of
        None \<Rightarrow> False
      | Some sh \<Rightarrow> length (json_rows sh) < 2)"

text \<open>
  What the reader guarantees of a workbook it has parsed: every listed sheet name has
  its sheet.
\<close>

definition wf_workbook :: "workbook \<Rightarrow> bool" where
  "wf_workbook wb \<longleftrightarrow> list_all (\<lambda>n. Sheets wb n \<noteq> None) (SheetNames wb)"

definition no_overrides :: "settings \<Rightarrow> bool" where
  "no_overrides st \<longleftrightarrow> rawSheet1Name st = [] \<and> rawSheet2Name st = [] \<and> rawSheet3Name st = []"

definition override_names_absent :: "settings \<Rightarrow> workbook \<Rightarrow> bool" where
  "override_names_absent st wb \<longleftrightarrow>
     (rawSheet1Name st \<noteq> [] \<and> Sheets wb (rawSheet1Name st) = None) \<or>
     (rawSheet2Name st \<noteq> [] \<and> Sheets wb (rawSheet2Name st) = None) \<or>
     (rawSheet3Name st \<noteq> [] \<and> Sheets wb (rawSheet3Name st) = None)"

definition plain_sheet :: "nat \<Rightarrow> nat \<Rightarrow> sheet" where
  "plain_sheet ec n = \<lparr>ref_e_c = Some ec, json_rows = replicate n [Str ''x'']\<rparr>"

definition sample_workbook :: workbook where
  "sample_workbook =
     \<lparr>SheetNames = [''position_list1039861856'', ''RPT_ALL_COSTS_V2_GVA'', ''RPT_POSITION_LIST''],
      Sheets = [''position_list1039861856'' \<mapsto> plain_sheet 77 4,
                ''RPT_ALL_COSTS_V2_GVA'' \<mapsto> plain_sheet 48 10,
                ''RPT_POSITION_LIST'' \<mapsto> plain_sheet 99 4]\<rparr>"

definition default_settings :: settings where
  "default_settings =
     \<lparr>outputSheetName = ''Q1-Q2-Q3-Q4-2024'', rawSheet1Name = [], rawSheet2Name = [],
      rawSheet3Name = [], dealColumnName = ''N''\<rparr>"

section \<open>Strings, numbers and dates of the runtime\<close>

text \<open>
  What the JavaScript runtime contributes and the repository does not define is a
  parameter of the model: how a number and a \<^verbatim>\<open>Date\<close> print (\<^verbatim>\<open>String(v)\<close>), what
  \<^verbatim>\<open>new Date(s)\<close> makes of a string (its time value, \<open>None\<close> when it is invalid), and the
  local calendar year and month of a time value (\<^verbatim>\<open>getFullYear\<close>, \<^verbatim>\<open>getMonth\<close>).
\<close>

record host =
  numberToString :: "rat \<Rightarrow> string"
  dateToString :: "int option \<Rightarrow> string"
  dateParse :: "string \<Rightarrow> int option"
  localFullYear :: "int \<Rightarrow> int"
  localMonth :: "int \<Rightarrow> nat"

text \<open>\<^verbatim>\<open>String(v)\<close>.\<close>

fun ToString :: "host \<Rightarrow> jsval \<Rightarrow> string" where
  "ToString h Undefined = ''undefined''"
| "ToString h Null = ''null''"
| "ToString h (Bool b) = (if b then ''true'' else ''false'')"
| "ToString h NaN = ''NaN''"
| "ToString h (Num r) = numberToString h r"
| "ToString h (Str s) = s"
| "ToString h (DateV t) = dateToString h t"

text \<open>
  \<^verbatim>\<open>trim()\<close> and \<^verbatim>\<open>toUpperCase()\<close> on the ASCII range: white space is tab, line feed,
  vertical tab, form feed, carriage return and space; the letters a to z have capitals.
\<close>

definition isWhiteSpace :: "char \<Rightarrow> bool" where
  "isWhiteSpace c \<longleftrightarrow> (of_char c :: nat) \<in> {9, 10, 11, 12, 13, 32}"

definition trim :: "string \<Rightarrow> string" where
  "trim s = rev (dropWhile isWhiteSpace (rev (dropWhile isWhiteSpace s)))"

definition isLower :: "char \<Rightarrow> bool" where
  "isLower c \<longleftrightarrow> 97 \<le> (of_char c :: nat) \<and> (of_char c :: nat) \<le> 122"

definition upperChar :: "char \<Rightarrow> char" where
  "upperChar c = (if isLower c then char_of ((of_char c :: nat) - 32) else c)"

definition toUpperCase :: "string \<Rightarrow> string" where
  "toUpperCase s = map upperChar s"

text \<open>
  \<^verbatim>\<open>normalize(value)\<close>:
  \<^verbatim>\<open>return value ? String(value).trim().toUpperCase() : '';\<close>
\<close>

definition normalize_value :: "host \<Rightarrow> jsval \<Rightarrow> string" where
  "normalize_value h v = (if truthy v then toUpperCase (trim (ToString h v)) else [])"

text \<open>
  The reading of the specification: the value as a string, trimmed and in capitals, and
  the empty string for \<^verbatim>\<open>null\<close>, \<^verbatim>\<open>undefined\<close> and the empty string.
\<close>

definition normalize_spec :: "host \<Rightarrow> jsval \<Rightarrow> string" where
  "normalize_spec h v =
     (if v = Null \<or> v = Undefined \<or> v = Str [] then []
      else toUpperCase (trim (ToString h v)))"

text \<open>
  \<^verbatim>\<open>parseFloat\<close>: the longest prefix of the string, after leading white space, that is
  a decimal literal (sign, digits, fraction, exponent); \<open>None\<close> is \<^verbatim>\<open>NaN\<close>. A number
  reads as itself, every other value prints as text that starts with no digit. The
  literal \<^verbatim>\<open>Infinity\<close>, a value the model's numbers lack, is not read.
\<close>

definition isDigit :: "char \<Rightarrow> bool" where
  "isDigit c \<longleftrightarrow> 48 \<le> (of_char c :: nat) \<and> (of_char c :: nat) \<le> 57"

definition digits_val :: "string \<Rightarrow> nat" where
  "digits_val ds = foldl (\<lambda>n c. 10 * n + ((of_char c :: nat) - 48)) 0 ds"

definition exponent_part :: "string \<Rightarrow> int" where
  "exponent_part s =
     (case s of
        [] \<Rightarrow> 0
      | c # rest \<Rightarrow>
          if c = CHR ''e'' \<or> c = CHR ''E'' then
            (let neg = (rest \<noteq> [] \<and> hd rest = CHR ''-'');
                 ds = (if rest \<noteq> [] \<and> (hd rest = CHR ''-'' \<or> hd rest = CHR ''+'')
                       then tl rest else rest);
                 e = takeWhile isDigit ds
             in if e = [] then 0
                else if neg then - int (digits_val e) else int (digits_val e))
          else 0)"

definition parseFloat_string :: "string \<Rightarrow> rat option" where
  "parseFloat_string s =
     (let t = dropWhile isWhiteSpace s;
          neg = (t \<noteq> [] \<and> hd t = CHR ''-'');
          u = (if t \<noteq> [] \<and> (hd t = CHR ''-'' \<or> hd t = CHR ''+'') then tl t else t);
          ip = takeWhile isDigit u;
          r1 = dropWhile isDigit u;
          dot = (r1 \<noteq> [] \<and> hd r1 = CHR ''.'');
          fp = (if dot then takeWhile isDigit (tl r1) else []);
          r2 = (if dot then dropWhile isDigit (tl r1) else r1);
          m = of_nat (digits_val ip) + of_nat (digits_val fp) / 10 ^ length fp
      in if ip = [] \<and> fp = [] then None
         else Some ((if neg then - m else m) * 10 powi exponent_part r2))"

fun parseFloat :: "jsval \<Rightarrow> rat option" where
  "parseFloat (Num r) = Some r"
| "parseFloat (Str s) = parseFloat_string s"
| "parseFloat v = None"

text \<open>
  \<^verbatim>\<open>new Date(t)\<close> for a number: the time value is cut to an integer, and is invalid
  beyond 8.64e15 milliseconds.
\<close>

definition TimeClip :: "rat \<Rightarrow> int option" where
  "TimeClip t =
     (if \<bar>t\<bar> > 8640000000000000 then None
      else Some (if t \<ge> 0 then \<lfloor>t\<rfloor> else \<lceil>t\<rceil>))"

text \<open>
  \<^verbatim>\<open>parseDate(value)\<close>: \<^verbatim>\<open>null\<close> (\<open>None\<close>) for a falsy value; an Excel serial number
  becomes \<^verbatim>\<open>new Date((value - 25569) * 86400 * 1000)\<close>, unchecked; any other value goes
  through \<^verbatim>\<open>new Date(value)\<close> and is \<^verbatim>\<open>null\<close> when that date is invalid.
\<close>

definition newDate :: "host \<Rightarrow> jsval \<Rightarrow> int option" where
  "newDate h v =
     (case v of
        Str s \<Rightarrow> dateParse h s
      | DateV t \<Rightarrow> t
      | Num r \<Rightarrow> TimeClip r
      | Bool b \<Rightarrow> Some (if b then 1 else 0)
      | Null \<Rightarrow> Some 0
      | _ \<Rightarrow> None)"

definition parseDate :: "host \<Rightarrow> jsval \<Rightarrow> int option option" where
  "parseDate h v =
     (if \<not> truthy v then None
      else case v of
        Num r \<Rightarrow> Some (TimeClip ((r - 25569) * 86400 * 1000))
      | _ \<Rightarrow> (case newDate h v of None \<Rightarrow> None | Some t \<Rightarrow> Some (Some t)))"

section \<open>Dashboard metrics (\<^verbatim>\<open>ExcelProcessor.calculateDashboardMetrics\<close>)\<close>

text \<open>One record per data row of the primary sheet; \<open>date = None\<close> is \<^verbatim>\<open>null\<close>.\<close>

record raw_record =
  deal :: string
  product :: string
  volume :: rat
  date :: "int option option"
  location :: string

record summary_metrics =
  totalDeals :: nat
  totalVolume :: rat
  productDistribution :: "string \<rightharpoonup> rat"

text \<open>The fields of the processor object that the metrics code reads and writes.\<close>

record processor =
  workbook_of :: workbook
  rawRecords :: "raw_record list"
  datePreset :: "string option"
  filteredRecords :: "raw_record list"
  summaryMetrics :: summary_metrics

text \<open>
  \<^verbatim>\<open>parseFloat(row[16]) || 0\<close>, and the object literal of the \<^verbatim>\<open>map\<close> callback
  (deal from column F, product from M, volume from Q, date from AM, location from AD).
\<close>

definition volume_of :: "jsval \<Rightarrow> rat" where
  "volume_of v = (case parseFloat v of None \<Rightarrow> 0 | Some q \<Rightarrow> q)"

definition toRecord :: "host \<Rightarrow> jsval list \<Rightarrow> raw_record" where
  "toRecord h row =
     \<lparr>deal = normalize_value h (js_or (cell row 5) (Str [])),
      product = normalize_value h (js_or (cell row 12) (Str [])),
      volume = volume_of (cell row 16),
      date = parseDate h (cell row 38),
      location = normalize_value h (js_or (cell row 29) (Str []))\<rparr>"

text \<open>
  \<^verbatim>\<open>rawData.slice(1).filter(row => row && row.length > 0)\<close>, then the \<^verbatim>\<open>map\<close>, then
  \<^verbatim>\<open>.filter(r => r.product && r.volume)\<close>.
\<close>

definition buildRawRecords :: "host \<Rightarrow> jsval list list \<Rightarrow> raw_record list" where
  "buildRawRecords h rawData =
     filter (\<lambda>r. product r \<noteq> [] \<and> volume r \<noteq> 0)
       (map (toRecord h) (filter (\<lambda>row. length row > 0) (drop 1 rawData)))"

text \<open>
  \<^verbatim>\<open>getQuarter\<close> and \<^verbatim>\<open>getRecordsByPreset\<close>. \<open>now\<close> is the time value of
  \<^verbatim>\<open>new Date()\<close>. \<^verbatim>\<open>getFullYear()\<close> and \<^verbatim>\<open>getMonth()\<close> of an invalid date are
  \<^verbatim>\<open>NaN\<close> (\<open>None\<close>), which equals no year and no month.
\<close>

definition getFullYear :: "host \<Rightarrow> int option \<Rightarrow> int option" where
  "getFullYear h d = map_option (localFullYear h) d"

definition getMonth :: "host \<Rightarrow> int option \<Rightarrow> nat option" where
  "getMonth h d = map_option (localMonth h) d"

definition getQuarter :: "host \<Rightarrow> int option \<Rightarrow> nat option" where
  "getQuarter h d = map_option (\<lambda>m. m div 3 + 1) (getMonth h d)"

definition getRecordsByPreset ::
  "host \<Rightarrow> int \<Rightarrow> string option \<Rightarrow> raw_record list \<Rightarrow> raw_record list" where
  "getRecordsByPreset h now preset all =
     (if preset = None \<or> preset = Some [] \<or> preset = Some ''ALL'' then all
      else
        let y = getFullYear h (Some now); m = getMonth h (Some now) in
        if preset = Some ''MTD'' then
          filter (\<lambda>r. case date r of None \<Rightarrow> False
                      | Some d \<Rightarrow> getFullYear h d = y \<and> getMonth h d = m) all
        else if preset = Some ''YTD'' then
          filter (\<lambda>r. case date r of None \<Rightarrow> False | Some d \<Rightarrow> getFullYear h d = y) all
        else if preset = Some ''QTD'' then
          (let q = getQuarter h (Some now) in
           filter (\<lambda>r. case date r of None \<Rightarrow> False
                       | Some d \<Rightarrow> getFullYear h d = y \<and> getQuarter h d = q) all)
        else all)"

text \<open>
  \<^verbatim>\<open>refreshMetricsFromRecords\<close>. The \<^verbatim>\<open>Set\<close> of deals is a list without repetition,
  \<^verbatim>\<open>productDistribution\<close> a map; \<open>visit_record\<close> is the body of the \<^verbatim>\<open>forEach\<close>, run
  on the triple (unique deals, total volume, distribution).
\<close>

definition set_add :: "'a \<Rightarrow> 'a list \<Rightarrow> 'a list" where
  "set_add x xs = (if x \<in> set xs then xs else xs @ [x])"

definition or_zero :: "rat option \<Rightarrow> rat" where
  "or_zero v = (case v of None \<Rightarrow> 0 | Some q \<Rightarrow> q)"

definition visit_record ::
  "raw_record \<Rightarrow> string list \<times> rat \<times> (string \<rightharpoonup> rat) \<Rightarrow> string list \<times> rat \<times> (string \<rightharpoonup> rat)" where
  "visit_record r acc =
     (case acc of (uniqueDeals, tv, pd) \<Rightarrow>
        ((if deal r \<noteq> [] then set_add (deal r) uniqueDeals else uniqueDeals),
         tv + volume r,
         pd(product r \<mapsto> or_zero (pd (product r)) + volume r)))"

definition refreshMetricsFromRecords :: "host \<Rightarrow> int \<Rightarrow> processor \<Rightarrow> processor" where
  "refreshMetricsFromRecords h now p =
     (let records = getRecordsByPreset h now (datePreset p) (rawRecords p);
          acc = fold visit_record records ([], 0, Map.empty)
      in case acc of (uniqueDeals, tv, pd) \<Rightarrow>
           p\<lparr>filteredRecords := records,
             summaryMetrics :=
               \<lparr>totalDeals = length uniqueDeals, totalVolume = tv, productDistribution = pd\<rparr>\<rparr>)"

text \<open>
  \<^verbatim>\<open>calculateDashboardMetrics\<close>: the rows of the primary sheet (none when the sheet is
  not there), the records, the default preset, the metrics.
\<close>

definition is_unset :: "string option \<Rightarrow> bool" where
  "is_unset preset \<longleftrightarrow> preset = None \<or> preset = Some []"

definition calculateDashboardMetrics :: "host \<Rightarrow> int \<Rightarrow> settings \<Rightarrow> processor \<Rightarrow> processor" where
  "calculateDashboardMetrics h now st p =
     (let rawData = (case Sheets (workbook_of p) (property_key (rawSheet1 st (workbook_of p))) of
                       None \<Rightarrow> []
                     | Some sh \<Rightarrow> json_rows sh);
          p1 = p\<lparr>rawRecords := buildRawRecords h rawData\<rparr>;
          p2 = (if is_unset (datePreset p1) then p1\<lparr>datePreset := Some ''ALL''\<rparr> else p1)
      in refreshMetricsFromRecords h now p2)"

text \<open>
  The reading of the specification: a row counts when it has a non-empty product and a
  quantity that is zero or positive.
\<close>

definition spec_included :: "jsval list \<Rightarrow> bool" where
  "spec_included row \<longleftrightarrow>
     truthy (cell row 12) \<and> (case parseFloat (cell row 16) of None \<Rightarrow> False | Some q \<Rightarrow> q \<ge> 0)"

text \<open>What the code asks of a row: a product that is not blank and a quantity other than zero.\<close>

definition code_included :: "host \<Rightarrow> jsval list \<Rightarrow> bool" where
  "code_included h row \<longleftrightarrow>
     normalize_value h (cell row 12) \<noteq> [] \<and>
     (case parseFloat (cell row 16) of None \<Rightarrow> False | Some q \<Rightarrow> q \<noteq> 0)"

section \<open>A host for the worked examples\<close>

text \<open>
  The examples below run on one concrete host: whole numbers print in decimal, a date is
  read from text of the form \<^verbatim>\<open>YYYY-MM-DD\<close>, and the calendar is that of UTC (the
  proleptic Gregorian calendar, by the usual day-count arithmetic). Nothing else of
  these functions is used in the examples.
\<close>

fun decimal_digits :: "nat \<Rightarrow> string \<Rightarrow> string" where
  "decimal_digits n acc =
     (if n div 10 = 0 then char_of (n mod 10 + 48) # acc
      else decimal_digits (n div 10) (char_of (n mod 10 + 48) # acc))"

declare decimal_digits.simps [simp del]

definition civil_from_days :: "int \<Rightarrow> int \<times> nat" where
  "civil_from_days z0 =
     (let z = z0 + 719468;
          era = z div 146097;
          doe = z - era * 146097;
          yoe = (doe - doe div 1460 + doe div 36524 - doe div 146096) div 365;
          doy = doe - (365 * yoe + yoe div 4 - yoe div 100);
          mp = (5 * doy + 2) div 153;
          m = (if mp < 10 then mp + 3 else mp - 9);
          y = yoe + era * 400 + (if m \<le> 2 then 1 else 0)
      in (y, nat (m - 1)))"

definition days_from_civil :: "int \<Rightarrow> int \<Rightarrow> int \<Rightarrow> int" where
  "days_from_civil y0 m d =
     (let y = (if m \<le> 2 then y0 - 1 else y0);
          era = y div 400;
          yoe = y - era * 400;
          doy = (153 * (if m > 2 then m - 3 else m + 9) + 2) div 5 + d - 1;
          doe = yoe * 365 + yoe div 4 - yoe div 100 + doy
      in era * 146097 + doe - 719468)"

definition iso_date :: "string \<Rightarrow> int option" where
  "iso_date s =
     (if length s = 10 \<and> s ! 4 = CHR ''-'' \<and> s ! 7 = CHR ''-'' \<and>
         list_all isDigit (take 4 s @ take 2 (drop 5 s) @ drop 8 s)
      then Some (86400000 *
             days_from_civil (int (digits_val (take 4 s))) (int (digits_val (take 2 (drop 5 s))))
               (int (digits_val (drop 8 s))))
      else None)"

definition example_host :: host where
  "example_host =
     \<lparr>numberToString = (\<lambda>r. (if r < 0 then ''-'' else []) @ decimal_digits (nat \<lfloor>\<bar>r\<bar>\<rfloor>) []),
      dateToString = (\<lambda>t. ''Invalid Date''),
      dateParse = iso_date,
      localFullYear = (\<lambda>t. fst (civil_from_days (t div 86400000))),
      localMonth = (\<lambda>t. snd (civil_from_days (t div 86400000)))\<rparr>"

section \<open>Example data\<close>

text \<open>
  Rows in the style of \<^verbatim>\<open>create_test_excel.js\<close>: \<open>n\<close> cells, the empty string wherever
  no value is given.
\<close>

definition sparse_row :: "nat \<Rightarrow> (nat \<times> jsval) list \<Rightarrow> jsval list" where
  "sparse_row n cells = map (\<lambda>i. case map_of cells i of None \<Rightarrow> Str [] | Some v \<Rightarrow> v) [0..<n]"

definition header_row :: "jsval list" where
  "header_row = replicate 78 (Str ''H'')"

definition deal_row :: "string \<Rightarrow> string \<Rightarrow> jsval \<Rightarrow> string \<Rightarrow> jsval list" where
  "deal_row d p q day =
     sparse_row 78 [(5, Str d), (12, Str p), (16, q), (29, Str ''ROTTERDAM''), (38, Str day)]"

definition example_rows :: "jsval list list" where
  "example_rows =
     [header_row,
      deal_row ''DEAL001'' ''PROD001'' (Str ''100'') ''2024-01-15'',
      deal_row ''DEAL002'' ''MIDLANDS'' (Str ''200'') ''2024-01-20'',
      deal_row ''DEAL003'' ''PROD003'' (Str ''150'') ''2024-02-10'']"

definition example_processor :: "jsval list list \<Rightarrow> processor" where
  "example_processor rows =
     \<lparr>workbook_of = \<lparr>SheetNames = [''S1'', ''S2'', ''S3''],
                      Sheets = [''S1'' \<mapsto> \<lparr>ref_e_c = Some 77, json_rows = rows\<rparr>]\<rparr>,
      rawRecords = [], datePreset = None, filteredRecords = [],
      summaryMetrics = \<lparr>totalDeals = 0, totalVolume = 0, productDistribution = Map.empty\<rparr>\<rparr>"

definition example_records :: "raw_record list" where
  "example_records =
     [\<lparr>deal = ''DEAL001'', product = ''PROD001'', volume = 100,
        date = Some (Some 1705276800000), location = ''SINGAPORE''\<rparr>,
      \<lparr>deal = ''DEAL002'', product = ''MIDLANDS'', volume = 200,
        date = None, location = ''ROTTERDAM''\<rparr>,
      \<lparr>deal = ''DEAL003'', product = ''PROD003'', volume = 150,
        date = Some (Some 1707523200000), location = ''HOUSTON''\<rparr>]"

section \<open>The comparison dashboard (\<^verbatim>\<open>DealComparisonDashboard\<close>)\<close>

text \<open>
  The deals of \<^verbatim>\<open>analysisData\<close>, as the comparison endpoint's JSON gives them. A
  number that is missing or \<^verbatim>\<open>null\<close> is \<open>None\<close>; so is a deal's missing list of costs.
\<close>

record cost_comparison =
  cost_type :: string
  cost_formatted :: "rat option"
  cost_comparison :: "rat option"
  cost_difference :: "rat option"
  status :: string

record comparison_deal =
  deal_id :: string
  formatted_quantity :: "rat option"
  comparison_quantity :: "rat option"
  difference :: "rat option"
  costs :: "cost_comparison list option"

text \<open>\<^verbatim>\<open>this.filters\<close>: the two sets the charts toggle.\<close>

record chart_filters =
  filter_deals :: "string set"
  filter_costTypes :: "string set"

text \<open>\<^verbatim>\<open>deal.costs || []\<close>.\<close>

definition costs_or_empty :: "comparison_deal \<Rightarrow> cost_comparison list" where
  "costs_or_empty d = (case costs d of None \<Rightarrow> [] | Some cs \<Rightarrow> cs)"

text \<open>
  \<^verbatim>\<open>getFilteredDeals\<close>; the argument is \<^verbatim>\<open>this.analysisData?.deals\<close>, \<open>None\<close> when
  there is none.
\<close>

definition getFilteredDeals ::
  "comparison_deal list option \<Rightarrow> chart_filters \<Rightarrow> comparison_deal list" where
  "getFilteredDeals analysisDeals filters =
     (case analysisDeals of
        None \<Rightarrow> []
      | Some ds \<Rightarrow>
          (let deals = map (\<lambda>d. d\<lparr>costs := Some (costs_or_empty d)\<rparr>) ds;
               positiveDeals = filter (\<lambda>d. or_zero (difference d) > 0) deals;
               filtered1 =
                 (if filter_deals filters \<noteq> {}
                  then filter (\<lambda>d. deal_id d \<in> filter_deals filters) positiveDeals
                  else positiveDeals);
               filtered2 =
                 (if filter_costTypes filters \<noteq> {}
                  then filter (\<lambda>d. length (costs_or_empty d) > 0)
                         (map (\<lambda>d. d\<lparr>costs := Some (filter (\<lambda>c. cost_type c \<in> filter_costTypes filters)
                                                     (costs_or_empty d))\<rparr>)
                            filtered1)
                  else filtered1)
           in filtered2))"

text \<open>
  \<^verbatim>\<open>xs.slice().sort((a, b) => key(b) - key(a))\<close>: the sort is stable, so it is the
  insertion sort on the negated key.
\<close>

definition sort_descending :: "('a \<Rightarrow> rat) \<Rightarrow> 'a list \<Rightarrow> 'a list" where
  "sort_descending key xs = sort_key (\<lambda>x. - key x) xs"

text \<open>
  \<^verbatim>\<open>renderVarianceChart\<close>: nothing is drawn for an empty selection (\<open>None\<close>);
  otherwise the bars are those of \<open>topDeals\<close>. The chart is drawn for the deals that
  \<^verbatim>\<open>getFilteredDeals\<close> returns, each of which has a number as its difference.
\<close>

definition topDeals :: "comparison_deal list \<Rightarrow> comparison_deal list" where
  "topDeals filteredDeals = take 20 (sort_descending (\<lambda>d. or_zero (difference d)) filteredDeals)"

record variance_chart =
  chart_labels :: "string list"
  chart_formatted :: "rat list"
  chart_comparison :: "rat list"
  chart_difference :: "rat list"

definition renderVarianceChart :: "comparison_deal list \<Rightarrow> variance_chart option" where
  "renderVarianceChart filteredDeals =
     (if length filteredDeals = 0 then None
      else Some
        \<lparr>chart_labels = map deal_id (topDeals filteredDeals),
         chart_formatted = map (\<lambda>d. or_zero (formatted_quantity d)) (topDeals filteredDeals),
         chart_comparison = map (\<lambda>d. or_zero (comparison_quantity d)) (topDeals filteredDeals),
         chart_difference = map (\<lambda>d. max (or_zero (difference d)) 0) (topDeals filteredDeals)\<rparr>)"

text \<open>
  \<^verbatim>\<open>aggregateUnregistered\<close>. The \<^verbatim>\<open>Map\<close> registry is the list of its entries in
  insertion order, an entry's \<^verbatim>\<open>Set\<close> of deals a list without repetition.
  \<open>visit_cost\<close> is the body of the inner \<^verbatim>\<open>forEach\<close>.
\<close>

record unregistered_entry =
  entry_cost_type :: string
  impact :: rat
  deal_count :: nat
  deals :: "string list"

definition registry_get :: "string \<Rightarrow> unregistered_entry list \<Rightarrow> unregistered_entry option" where
  "registry_get k reg = find (\<lambda>e. entry_cost_type e = k) reg"

definition registry_set ::
  "string \<Rightarrow> unregistered_entry \<Rightarrow> unregistered_entry list \<Rightarrow> unregistered_entry list" where
  "registry_set k e reg =
     (if list_ex (\<lambda>x. entry_cost_type x = k) reg
      then map (\<lambda>x. if entry_cost_type x = k then e else x) reg
      else reg @ [e])"

definition visit_cost ::
  "string \<Rightarrow> cost_comparison \<Rightarrow> unregistered_entry list \<Rightarrow> unregistered_entry list" where
  "visit_cost did c reg =
     (if status c = ''Unregistered'' then
        (let current =
               (case registry_get (cost_type c) reg of
                  Some e \<Rightarrow> e
                | None \<Rightarrow> \<lparr>entry_cost_type = cost_type c, impact = 0, deal_count = 0, deals = []\<rparr>);
             ds = set_add did (deals current)
         in registry_set (cost_type c)
              (current\<lparr>impact := impact current + \<bar>or_zero (cost_difference c)\<bar>,
                       deals := ds, deal_count := length ds\<rparr>)
              reg)
      else reg)"

definition aggregateUnregistered :: "comparison_deal list \<Rightarrow> unregistered_entry list" where
  "aggregateUnregistered ds =
     sort_descending impact
       (fold (\<lambda>d reg. fold (visit_cost (deal_id d)) (costs_or_empty d) reg) ds [])"

text \<open>
  The two nested \<^verbatim>\<open>forEach\<close> loops visit the cost comparisons of all deals in order,
  each with its deal's id: \<open>all_pairs\<close>. Of a list of such pairs, \<open>unreg\<close> are the
  Unregistered ones and \<open>of_type k\<close> the Unregistered ones of cost type \<open>k\<close>.
\<close>

definition all_pairs :: "comparison_deal list \<Rightarrow> (string \<times> cost_comparison) list" where
  "all_pairs ds = concat (map (\<lambda>d. map (\<lambda>c. (deal_id d, c)) (costs_or_empty d)) ds)"

definition unreg :: "(string \<times> cost_comparison) list \<Rightarrow> (string \<times> cost_comparison) list" where
  "unreg ps = filter (\<lambda>(i, c). status c = ''Unregistered'') ps"

definition of_type :: "string \<Rightarrow> (string \<times> cost_comparison) list \<Rightarrow> (string \<times> cost_comparison) list" where
  "of_type k ps = filter (\<lambda>(i, c). cost_type c = k) (unreg ps)"

definition unregistered_pairs :: "comparison_deal list \<Rightarrow> (string \<times> cost_comparison) list" where
  "unregistered_pairs ds = unreg (all_pairs ds)"

definition unregistered_of :: "string \<Rightarrow> comparison_deal list \<Rightarrow> (string \<times> cost_comparison) list" where
  "unregistered_of k ds = of_type k (all_pairs ds)"

definition example_deal :: "string \<Rightarrow> rat \<Rightarrow> (string \<times> rat \<times> string) list \<Rightarrow> comparison_deal" where
  "example_deal i d cs =
     \<lparr>deal_id = i, formatted_quantity = Some (800 + d), comparison_quantity = Some 800,
      difference = Some d,
      costs = Some (map (\<lambda>(k, x, s). \<lparr>cost_type = k, cost_formatted = Some 0, cost_comparison = Some (- x),
                                        cost_difference = Some x, status = s\<rparr>) cs)\<rparr>"

definition example_deals :: "comparison_deal list" where
  "example_deals =
     [example_deal ''D1'' 200 [(''INS'', -450, ''Unregistered''), (''BLC'', 0, ''Registered'')],
      example_deal ''D2'' 0 [(''INS'', -50, ''Unregistered'')],
      example_deal ''D3'' (-30) [(''INA'', -350, ''Unregistered'')],
      example_deal ''D4'' 500 [(''INS'', 100, ''Unregistered''), (''INA'', -700, ''Unregistered''),
                               (''INS'', 25, ''Unregistered'')]]"

definition no_filters :: chart_filters where
  "no_filters = \<lparr>filter_deals = {}, filter_costTypes = {}\<rparr>"

subsection \<open>The registry's invariant\<close>

text \<open>
  \<open>visit_pair\<close> is \<open>visit_cost\<close> on a pair. After the pairs \<open>ps\<close> the registry has one
  entry per cost type that is Unregistered somewhere in \<open>ps\<close>, and each entry sums up
  the pairs of its type.
\<close>

definition visit_pair :: "string \<times> cost_comparison \<Rightarrow> unregistered_entry list \<Rightarrow> unregistered_entry list" where
  "visit_pair p reg = visit_cost (fst p) (snd p) reg"

definition entry_ok :: "(string \<times> cost_comparison) list \<Rightarrow> unregistered_entry \<Rightarrow> bool" where
  "entry_ok ps e \<longleftrightarrow>
     set (deals e) = fst ` set (of_type (entry_cost_type e) ps) \<and>
     distinct (deals e) \<and>
     deal_count e = length (deals e) \<and>
     impact e = sum_list (map (\<lambda>(i, c). \<bar>or_zero (cost_difference c)\<bar>) (of_type (entry_cost_type e) ps))"

definition reg_ok :: "(string \<times> cost_comparison) list \<Rightarrow> unregistered_entry list \<Rightarrow> bool" where
  "reg_ok ps reg \<longleftrightarrow>
     distinct (map entry_cost_type reg) \<and>
     set (map entry_cost_type reg) = (\<lambda>(i, c). cost_type c) ` set (unreg ps) \<and>
     (\<forall>e \<in> set reg. entry_ok ps e)"

section \<open>The backend, modelled from the specification\<close>

text \<open>
  The enrichment rules, the HTTP boundary and the token store run in the Python backend
  (\<^verbatim>\<open>server.py\<close>), which is not among the sources at hand; the browser code only calls
  it. The definitions of this section follow the words of the specification.
\<close>

subsection \<open>Rule engine\<close>

text \<open>
  Modelled from the spec: the \<^verbatim>\<open>RawDealRecord\<close> of section 3 (the backend's parsed
  primary-sheet row is missing from the sources).
\<close>

record RawDealRecord =
  dealNumber :: string
  vessel :: string
  dealProduct :: string
  hedgeNumber :: string
  quantityBbl :: rat
  inco :: string
  contractualLocation :: string
  risk :: string
  dealDate :: string
  isWhbCifDeal :: bool

text \<open>
  Modelled from the spec: the \<^verbatim>\<open>CostEntry\<close> of section 3 (the backend's cost rows are
  missing from the sources).
\<close>

record CostEntry =
  entryDeal :: string
  entryCostType :: string
  amount :: rat

text \<open>
  Modelled from the spec: the \<^verbatim>\<open>HedgeRecord\<close> of section 3 (the backend's hedge rows
  are missing from the sources).
\<close>

record HedgeRecord =
  hedgeKey :: string
  vsaComment :: string
  additionalInfo :: string

text \<open>
  Modelled from the spec: the \<^verbatim>\<open>CostIndex\<close> lookup (the backend's index builder is
  missing): the value for a deal and a cost type is the exact sum of the matching
  entries' amounts.
\<close>

definition costIndex :: "CostEntry list \<Rightarrow> string \<Rightarrow> string \<Rightarrow> rat" where
  "costIndex entries d k =
     sum_list (map amount (filter (\<lambda>e. entryDeal e = d \<and> entryCostType e = k) entries))"

text \<open>
  Modelled from the spec: the \<^verbatim>\<open>HedgeIndex\<close> (the backend's index builder is missing):
  one record per hedge number, the last occurrence winning.
\<close>

definition hedgeIndex :: "HedgeRecord list \<Rightarrow> string \<rightharpoonup> HedgeRecord" where
  "hedgeIndex hs = fold (\<lambda>h m. m(hedgeKey h \<mapsto> h)) hs Map.empty"

text \<open>
  Modelled from the spec: the cost columns E to K of an output row (the backend's row
  type is missing).
\<close>

datatype cost_column = ColE | ColF | ColG | ColH | ColI | ColJ | ColK

text \<open>
  Modelled from the spec: the computed part of an \<^verbatim>\<open>OutputRow\<close> (the backend's row type
  is missing): the cells E to K (\<open>None\<close> is a blank cell), which of them are locked, the
  total in column L, and columns U and V.
\<close>

record OutputRow =
  cells :: "cost_column \<Rightarrow> rat option"
  locked :: "cost_column \<Rightarrow> bool"
  totalUsd :: rat
  vsaComments :: string
  additionalInformation :: string

text \<open>
  Modelled from the spec: the row before any rule has run (the backend's row assembly is
  missing): every cost cell blank, nothing locked.
\<close>

definition blank_row :: OutputRow where
  "blank_row =
     \<lparr>cells = (\<lambda>c. None), locked = (\<lambda>c. False), totalUsd = 0, vsaComments = [],
      additionalInformation = []\<rparr>"

text \<open>
  Modelled from the spec: assignment to a cell (the backend's rule code is missing): a
  locked cell is excluded from assignment, any other cell takes the value.
\<close>

definition assign_cell :: "cost_column \<Rightarrow> rat \<Rightarrow> OutputRow \<Rightarrow> OutputRow" where
  "assign_cell c v row = (if locked row c then row else row\<lparr>cells := (cells row)(c := Some v)\<rparr>)"

text \<open>
  Modelled from the spec: setting a cell to 0 and marking it locked (the backend's rule
  code is missing); a cell that is locked already keeps its value.
\<close>

definition zero_and_lock :: "cost_column \<Rightarrow> OutputRow \<Rightarrow> OutputRow" where
  "zero_and_lock c row = (assign_cell c 0 row)\<lparr>locked := (locked row)(c := True)\<rparr>"

text \<open>
  Modelled from the spec: rule 1 (the backend's rule code is missing). If the product,
  trimmed and compared without regard to case, is MIDLANDS, columns E to K are set to 0
  and locked.
\<close>

definition rule1 :: "RawDealRecord \<Rightarrow> OutputRow \<Rightarrow> OutputRow" where
  "rule1 raw row =
     (if toUpperCase (trim (dealProduct raw)) = ''MIDLANDS''
      then fold zero_and_lock [ColE, ColF, ColG, ColH, ColI, ColJ, ColK] row
      else row)"

text \<open>
  Modelled from the spec: rule 2 (the backend's rule code is missing). A deal flagged
  WHB+CIF has columns I and J set to 0 and locked.
\<close>

definition rule2 :: "RawDealRecord \<Rightarrow> OutputRow \<Rightarrow> OutputRow" where
  "rule2 raw row = (if isWhbCifDeal raw then fold zero_and_lock [ColI, ColJ] row else row)"

text \<open>
  Modelled from the spec: rule 3 (the backend's rule code is missing). Column E takes the
  cost index's BLC total of the deal, unless locked.
\<close>

definition rule3 :: "CostEntry list \<Rightarrow> RawDealRecord \<Rightarrow> OutputRow \<Rightarrow> OutputRow" where
  "rule3 entries raw row = assign_cell ColE (costIndex entries (dealNumber raw) ''BLC'') row"

text \<open>
  Modelled from the spec: rule 4 (the backend's rule code is missing). Column I takes the
  cost index's CIN total of the deal, unless locked.
\<close>

definition rule4 :: "CostEntry list \<Rightarrow> RawDealRecord \<Rightarrow> OutputRow \<Rightarrow> OutputRow" where
  "rule4 entries raw row = assign_cell ColI (costIndex entries (dealNumber raw) ''CIN'') row"

text \<open>
  Modelled from the spec: rule 5 (the backend's rule code is missing). Column J takes the
  cost index's CLI total of the deal, unless locked.
\<close>

definition rule5 :: "CostEntry list \<Rightarrow> RawDealRecord \<Rightarrow> OutputRow \<Rightarrow> OutputRow" where
  "rule5 entries raw row = assign_cell ColJ (costIndex entries (dealNumber raw) ''CLI'') row"

text \<open>
  Modelled from the spec: rule 6 (the backend's rule code is missing). Column L is the
  sum of columns E to K, a blank cell counting as 0, computed after all changes to them.
\<close>

definition rule6 :: "OutputRow \<Rightarrow> OutputRow" where
  "rule6 row =
     row\<lparr>totalUsd := sum_list (map (\<lambda>c. or_zero (cells row c))
                          [ColE, ColF, ColG, ColH, ColI, ColJ, ColK])\<rparr>"

text \<open>
  Modelled from the spec: rule 7 (the backend's rule code is missing). Column U is the
  VSA comment the hedge index has for the row's hedge number, empty when it has none.
\<close>

definition rule7 :: "HedgeRecord list \<Rightarrow> RawDealRecord \<Rightarrow> OutputRow \<Rightarrow> OutputRow" where
  "rule7 hs raw row =
     row\<lparr>vsaComments := (case hedgeIndex hs (hedgeNumber raw) of None \<Rightarrow> [] | Some h \<Rightarrow> vsaComment h)\<rparr>"

text \<open>
  Modelled from the spec: rule 8 (the backend's rule code is missing). Column V is the
  additional information of the same hedge record, empty when there is none.
\<close>

definition rule8 :: "HedgeRecord list \<Rightarrow> RawDealRecord \<Rightarrow> OutputRow \<Rightarrow> OutputRow" where
  "rule8 hs raw row =
     row\<lparr>additionalInformation :=
           (case hedgeIndex hs (hedgeNumber raw) of None \<Rightarrow> [] | Some h \<Rightarrow> additionalInfo h)\<rparr>"

text \<open>
  Modelled from the spec: the rule engine (the backend's enrichment is missing): the
  eight rules in their fixed order, on the blank row.
\<close>

definition applyRules :: "CostEntry list \<Rightarrow> HedgeRecord list \<Rightarrow> RawDealRecord \<Rightarrow> OutputRow" where
  "applyRules entries hs raw =
     rule8 hs raw (rule7 hs raw (rule6 (rule5 entries raw (rule4 entries raw
       (rule3 entries raw (rule2 raw (rule1 raw blank_row)))))))"

text \<open>An example deal and cost entries, after the second row of the sample workbook.\<close>

definition midlands_deal :: RawDealRecord where
  "midlands_deal =
     \<lparr>dealNumber = ''DEAL002'', vessel = ''VESSEL2'', dealProduct = '' Midlands '',
      hedgeNumber = ''HEDGE002'', quantityBbl = 200, inco = ''CIF'',
      contractualLocation = ''ROTTERDAM'', risk = ''GAS'', dealDate = ''2024-01-20'',
      isWhbCifDeal = True\<rparr>"

definition example_costs :: "CostEntry list" where
  "example_costs =
     [\<lparr>entryDeal = ''DEAL002'', entryCostType = ''BLC'', amount = 800\<rparr>,
      \<lparr>entryDeal = ''DEAL002'', entryCostType = ''CIN'', amount = 300\<rparr>,
      \<lparr>entryDeal = ''DEAL002'', entryCostType = ''CLI'', amount = 400\<rparr>,
      \<lparr>entryDeal = ''DEAL001'', entryCostType = ''BLC'', amount = 50\<rparr>]"

subsection \<open>Error responses\<close>

text \<open>
  Modelled from the spec: the error kinds of section 7 (the backend's exception classes
  are missing), with the offending sheet and column names.
\<close>

datatype failure =
    FailMissingSheet string
  | FailMissingColumn string string
  | FailInsufficientRows
  | FailInvalidFileFormat
  | FailUnknownToken
  | FailInternalProcessingError

text \<open>
  Modelled from the spec: the validation failures (the backend's classification is
  missing) are the first four kinds, the ones the caller can fix.
\<close>

fun is_validation_failure :: "failure \<Rightarrow> bool" where
  "is_validation_failure (FailMissingSheet s) = True"
| "is_validation_failure (FailMissingColumn s c) = True"
| "is_validation_failure FailInsufficientRows = True"
| "is_validation_failure FailInvalidFileFormat = True"
| "is_validation_failure FailUnknownToken = False"
| "is_validation_failure FailInternalProcessingError = False"

text \<open>
  Modelled from the spec: the HTTP status of a failure (the backend's handlers are
  missing): 4xx for a validation failure, 404 for an unknown token, 5xx for an internal
  failure. The repository's upload test pins 400 for an invalid file; the model answers
  400 to every validation failure.
\<close>

fun http_status :: "failure \<Rightarrow> nat" where
  "http_status FailUnknownToken = 404"
| "http_status FailInternalProcessingError = 500"
| "http_status f = 400"

text \<open>
  Modelled from the spec: the message of a failure (the backend's wording is missing): a
  validation failure names the offending sheet or column, an internal failure is generic.
\<close>

fun failure_message :: "failure \<Rightarrow> string" where
  "failure_message (FailMissingSheet s) = ''Missing sheet: '' @ s"
| "failure_message (FailMissingColumn s c) = ''Missing column '' @ c @ '' in sheet '' @ s"
| "failure_message FailInsufficientRows = ''Insufficient rows''"
| "failure_message FailInvalidFileFormat = ''Invalid file format''"
| "failure_message FailUnknownToken = ''Unknown token''"
| "failure_message FailInternalProcessingError = ''Internal processing error''"

text \<open>
  Modelled from the spec: a response as the caller sees it (the backend's responses are
  missing): the status and, when the body is an object with an \<^verbatim>\<open>error\<close> field, that
  field.
\<close>

record http_response =
  status_code :: nat
  error_field :: "string option"

text \<open>
  Modelled from the spec: the response to a failed request (the backend's handlers are
  missing): the body is \<^verbatim>\<open>{error: message}\<close>.
\<close>

definition error_response :: "failure \<Rightarrow> http_response" where
  "error_response f = \<lparr>status_code = http_status f, error_field = Some (failure_message f)\<rparr>"

text \<open>\<^verbatim>\<open>response.ok\<close> of the browser's \<^verbatim>\<open>fetch\<close>: a status from 200 to 299.\<close>

definition response_ok :: "http_response \<Rightarrow> bool" where
  "response_ok r \<longleftrightarrow> 200 \<le> status_code r \<and> status_code r \<le> 299"

text \<open>
  What \<^verbatim>\<open>downloadFile\<close> makes of the response: for a response that is not ok it
  throws \<^verbatim>\<open>new Error(errorData.error || 'Server processing failed')\<close> (\<open>Inl\<close> the
  message); otherwise it goes on to the download.
\<close>

definition downloadFile_check :: "http_response \<Rightarrow> string + unit" where
  "downloadFile_check r =
     (if \<not> response_ok r then
        Inl (case error_field r of
               None \<Rightarrow> ''Server processing failed''
             | Some m \<Rightarrow> if m \<noteq> [] then m else ''Server processing failed'')
      else Inr ())"

subsection \<open>Token store\<close>

text \<open>
  Modelled from the spec: the export formats of section 6 (the backend's export routes
  are missing).
\<close>

datatype export_format = Spreadsheet | DelimitedText | PrintableSummary

text \<open>
  Modelled from the spec: the \<^verbatim>\<open>AnalysisTokenStore\<close> of section 4.6 (the backend's store
  is missing): the results by token, and the next token to hand out. Nothing is evicted.
\<close>

record 'r token_store =
  next_token :: nat
  stored :: "nat \<rightharpoonup> 'r"

text \<open>
  Modelled from the spec: the store of a fresh process (the backend's store is missing).
\<close>

definition empty_store :: "'r token_store" where
  "empty_store = \<lparr>next_token = 0, stored = Map.empty\<rparr>"

text \<open>
  Modelled from the spec: publishing a reconciliation result (the backend's compare
  route is missing): a token not used before, and the result stored under it.
\<close>

definition publish :: "'r \<Rightarrow> 'r token_store \<Rightarrow> nat \<times> 'r token_store" where
  "publish r s =
     (next_token s, \<lparr>next_token = Suc (next_token s), stored = (stored s)(next_token s \<mapsto> r)\<rparr>)"

text \<open>
  Modelled from the spec: an export by token (the backend's export routes are missing):
  the stored result rendered in the format, or the unknown-token failure. The renderers
  are outside the specification's scope; \<open>render\<close> stands for them, a function of the
  format and the stored result.
\<close>

definition export_by_token ::
  "(export_format \<Rightarrow> 'r \<Rightarrow> nat list) \<Rightarrow> export_format \<Rightarrow> nat \<Rightarrow> 'r token_store \<Rightarrow> failure + nat list" where
  "export_by_token render fmt tok s =
     (case stored s tok of None \<Rightarrow> Inl FailUnknownToken | Some r \<Rightarrow> Inr (render fmt r))"

text \<open>
  Modelled from the spec: the requests that reach the store (the backend's routes are
  missing): a reconciliation with its result, and an export by format and token.
\<close>

datatype 'r store_request = Reconcile 'r | Export export_format nat

text \<open>
  Modelled from the spec: what a request does to the store (the backend's routes are
  missing): a reconciliation publishes its result, an export only reads.
\<close>

fun serve :: "'r store_request \<Rightarrow> 'r token_store \<Rightarrow> 'r token_store" where
  "serve (Reconcile r) s = snd (publish r s)"
| "serve (Export fmt tok) s = s"

text \<open>
  Modelled from the spec: a store a running backend can be in (the backend's store is
  missing): the empty store after some requests.
\<close>

definition reachable_store :: "'r store_request list \<Rightarrow> 'r token_store" where
  "reachable_store reqs = fold serve reqs empty_store"

text \<open>
  The invariant that keeps tokens unique: every token in use is below the next one.
\<close>

definition tokens_fresh :: "'r token_store \<Rightarrow> bool" where
  "tokens_fresh s \<longleftrightarrow> (\<forall>t. stored s t \<noteq> None \<longrightarrow> t < next_token s)"

text \<open>A renderer for the examples: the bytes of the result, after the format's tag.\<close>

definition example_render :: "export_format \<Rightarrow> nat list \<Rightarrow> nat list" where
  "example_render fmt r =
     (case fmt of Spreadsheet \<Rightarrow> 80 | DelimitedText \<Rightarrow> 44 | PrintableSummary \<Rightarrow> 37) # r"

section \<open>Properties of workbook validation\<close>

lemma decode_col_values:
  "decode_col ''B'' = 1" "decode_col ''AA'' = 26" "decode_col ''M'' = 12" "decode_col ''L'' = 11"
  "decode_col ''Q'' = 16" "decode_col ''AB'' = 27" "decode_col ''AD'' = 29" "decode_col ''AL'' = 37"
  "decode_col ''X'' = 23" "decode_col ''BZ'' = 77" "decode_col ''N'' = 13" "decode_col ''AQ'' = 42"
  "decode_col ''AV'' = 47" "decode_col ''BR'' = 69" "decode_col ''CN'' = 91"
  by (simp_all add: decode_col_def)

lemma check_columns_isl:
  "isl (check_columns name ec cols) \<longleftrightarrow> list_ex (\<lambda>col. decode_col col > int ec) cols"
  by (induction cols) auto

text \<open>
  With the columns' indices worked out, the column check of each sheet is a bound on the
  last column of its range: BZ (77) for the primary sheet, AV (47) for sheet 2 and CN
  (91) for sheet 3.
\<close>

lemma mandatory_columns_bound:
  "list_ex (\<lambda>col. \<not> column_populated sh col) sheet1_columns \<longleftrightarrow>
     (case ref_e_c sh of None \<Rightarrow> True | Some ec \<Rightarrow> ec < 77)"
  "list_ex (\<lambda>col. \<not> column_populated sh col) sheet2_columns \<longleftrightarrow>
     (case ref_e_c sh of None \<Rightarrow> True | Some ec \<Rightarrow> ec < 47)"
  "list_ex (\<lambda>col. \<not> column_populated sh col) sheet3_columns \<longleftrightarrow>
     (case ref_e_c sh of None \<Rightarrow> True | Some ec \<Rightarrow> ec < 91)"
  by (auto simp: column_populated_def sheet1_columns_def sheet2_columns_def sheet3_columns_def
      decode_col_values split: option.splits)

lemma validateSheetColumns_isl:
  "Sheets wb (property_key name) = Some sh \<Longrightarrow> cols \<noteq> [] \<Longrightarrow>
   isl (validateSheetColumns wb name cols) \<longleftrightarrow> lacks_column wb name cols"
  by (cases cols) (auto simp: validateSheetColumns_def lacks_column_def column_populated_def
        check_columns_isl list_ex_iff not_le split: option.splits)

text \<open>
  Claim C1. For every workbook and every choice of sheet-name overrides, \<^verbatim>\<open>validateFile\<close>
  raises an error if and only if one of the three required sheets is absent, or a
  mandatory column of a required sheet lies beyond that sheet's populated column range
  (primary sheet: B, AA, M, L, Q, AB, AD, AL, X, BZ; sheet 2: N, AQ, AV; sheet 3: M, BR,
  CN), or the primary sheet has fewer than two rows; otherwise it returns normally.
\<close>

theorem validateFile_fails_iff:
  "(isl (validateFile st wb) \<longleftrightarrow>
      MissingSheet st wb \<or> MissingColumn st wb \<or> InsufficientRows st wb) \<and>
   (validateFile st wb = Inr () \<longleftrightarrow>
      \<not> MissingSheet st wb \<and> \<not> MissingColumn st wb \<and> \<not> InsufficientRows st wb)"
proof -
  have fails: "isl (validateFile st wb) \<longleftrightarrow>
      MissingSheet st wb \<or> MissingColumn st wb \<or> InsufficientRows st wb"
  proof (cases "MissingSheet st wb")
    case True
    then show ?thesis
      by (auto simp: validateFile_def MissingSheet_def Let_def)
  next
    case False
    then obtain sh1 sh2 sh3 where
      s: "Sheets wb (property_key (rawSheet1 st wb)) = Some sh1"
         "Sheets wb (property_key (rawSheet2 st wb)) = Some sh2"
         "Sheets wb (property_key (rawSheet3 st wb)) = Some sh3"
      by (auto simp: MissingSheet_def)
    have c:
      "isl (validateSheetColumns wb (rawSheet1 st wb) sheet1_columns) =
         lacks_column wb (rawSheet1 st wb) sheet1_columns"
      "isl (validateSheetColumns wb (rawSheet2 st wb) sheet2_columns) =
         lacks_column wb (rawSheet2 st wb) sheet2_columns"
      "isl (validateSheetColumns wb (rawSheet3 st wb) sheet3_columns) =
         lacks_column wb (rawSheet3 st wb) sheet3_columns"
      using s by (simp_all add: validateSheetColumns_isl sheet1_columns_def sheet2_columns_def
          sheet3_columns_def)
    show ?thesis using False s c
      by (auto simp: validateFile_def Let_def MissingColumn_def InsufficientRows_def
          split: sum.splits)
  qed
  have "validateFile st wb = Inr () \<longleftrightarrow> \<not> isl (validateFile st wb)"
    by (cases "validateFile st wb") auto
  with fails show ?thesis by blast
qed

lemma validateSheetColumns_not_SheetNotFound:
  "validateSheetColumns wb name cols \<noteq> Inl (SheetNotFound n s)"
proof -
  have "check_columns nm ec cs \<noteq> Inl (SheetNotFound n s)" for nm ec cs
    by (induction cs) auto
  then show ?thesis
    by (auto simp: validateSheetColumns_def split: option.splits)
qed

lemma SheetNotFound_cases:
  assumes "validateFile st wb = Inl (SheetNotFound n s)"
  shows "(n = 1 \<and> s = property_key (rawSheet1 st wb) \<and> Sheets wb s = None) \<or>
         (n = 2 \<and> s = property_key (rawSheet2 st wb) \<and> Sheets wb s = None) \<or>
         (n = 3 \<and> s = property_key (rawSheet3 st wb) \<and> Sheets wb s = None)"
  using assms validateSheetColumns_not_SheetNotFound
  by (auto simp: validateFile_def Let_def split: if_splits sum.splits option.splits)

lemma wf_listed: "wf_workbook wb \<Longrightarrow> i < length (SheetNames wb) \<Longrightarrow> Sheets wb (SheetNames wb ! i) \<noteq> None"
  by (simp add: wf_workbook_def list_all_length)

lemma choice_absent:
  assumes "wf_workbook wb" "Sheets wb (property_key (sheet_choice ov (js_index (SheetNames wb) i))) = None"
  shows "(ov \<noteq> [] \<and> Sheets wb ov = None) \<or> length (SheetNames wb) \<le> i"
  using assms wf_listed[of wb i]
  by (auto simp: sheet_choice_def js_index_def property_key_def split: if_splits)

text \<open>
  Claim C9. Without sheet-name overrides the three required sheets are the workbook's
  first, second and third sheet names. So for a workbook with at least three sheets the
  presence check passes whatever the sheets are called, and a missing-sheet error is
  raised only when an override names an absent sheet or the workbook has fewer than
  three sheets. The workbook is one the reader produced: each listed name has a sheet.
\<close>

theorem default_sheets_positional:
  "wf_workbook wb \<Longrightarrow>
     (no_overrides st \<longrightarrow>
        rawSheet1 st wb = js_index (SheetNames wb) 0 \<and>
        rawSheet2 st wb = js_index (SheetNames wb) 1 \<and>
        rawSheet3 st wb = js_index (SheetNames wb) 2) \<and>
     (no_overrides st \<and> 3 \<le> length (SheetNames wb) \<longrightarrow>
        \<not> MissingSheet st wb \<and> (\<forall>n s. validateFile st wb \<noteq> Inl (SheetNotFound n s))) \<and>
     (\<forall>n s. validateFile st wb = Inl (SheetNotFound n s) \<longrightarrow>
        override_names_absent st wb \<or> length (SheetNames wb) < 3)"
proof (intro conjI impI allI)
  assume wf: "wf_workbook wb"
  {
    fix n s assume e: "validateFile st wb = Inl (SheetNotFound n s)"
    from SheetNotFound_cases[OF e]
    show "override_names_absent st wb \<or> length (SheetNames wb) < 3"
      using choice_absent[OF wf, of "rawSheet1Name st" 0] choice_absent[OF wf, of "rawSheet2Name st" 1]
        choice_absent[OF wf, of "rawSheet3Name st" 2]
      by (auto simp: override_names_absent_def rawSheet1_def rawSheet2_def rawSheet3_def)
  } note third = this
  {
    assume no: "no_overrides st \<and> 3 \<le> length (SheetNames wb)"
    then show ms: "\<not> MissingSheet st wb"
      using wf_listed[OF wf, of 0] wf_listed[OF wf, of 1] wf_listed[OF wf, of 2]
      by (auto simp: MissingSheet_def no_overrides_def rawSheet1_def rawSheet2_def rawSheet3_def
          sheet_choice_def js_index_def property_key_def)
    fix n s
    show "validateFile st wb \<noteq> Inl (SheetNotFound n s)"
    proof
      assume "validateFile st wb = Inl (SheetNotFound n s)"
      from SheetNotFound_cases[OF this] ms show False
        by (auto simp: MissingSheet_def)
    qed
  }
qed (simp_all add: no_overrides_def rawSheet1_def rawSheet2_def rawSheet3_def sheet_choice_def)

theorem default_sheets_positional_witness:
  "wf_workbook sample_workbook \<and> no_overrides default_settings \<and>
   3 \<le> length (SheetNames sample_workbook) \<and>
   rawSheet2 default_settings sample_workbook = Some ''RPT_ALL_COSTS_V2_GVA'' \<and>
   \<not> MissingSheet default_settings sample_workbook \<and>
   validateFile (default_settings\<lparr>rawSheet2Name := ''Costs''\<rparr>) sample_workbook = Inl (SheetNotFound 2 ''Costs'') \<and>
   override_names_absent (default_settings\<lparr>rawSheet2Name := ''Costs''\<rparr>) sample_workbook"
proof -
  have wf: "wf_workbook sample_workbook"
    by (simp add: wf_workbook_def sample_workbook_def)
  have no: "no_overrides default_settings"
    by (simp add: no_overrides_def default_settings_def)
  have len: "3 \<le> length (SheetNames sample_workbook)"
    by (simp add: sample_workbook_def)
  have e: "validateFile (default_settings\<lparr>rawSheet2Name := ''Costs''\<rparr>) sample_workbook = Inl (SheetNotFound 2 ''Costs'')"
    by (simp add: validateFile_def Let_def default_settings_def sample_workbook_def rawSheet1_def
        rawSheet2_def rawSheet3_def sheet_choice_def js_index_def property_key_def)
  have len': "\<not> length (SheetNames sample_workbook) < 3"
    by (simp add: sample_workbook_def)
  from default_sheets_positional[OF wf, of default_settings] no len
  have a: "rawSheet2 default_settings sample_workbook = js_index (SheetNames sample_workbook) 1"
    and b: "\<not> MissingSheet default_settings sample_workbook"
    by blast+
  from default_sheets_positional[OF wf, of "default_settings\<lparr>rawSheet2Name := ''Costs''\<rparr>"] e len'
  have c: "override_names_absent (default_settings\<lparr>rawSheet2Name := ''Costs''\<rparr>) sample_workbook"
    by blast
  from a have a': "rawSheet2 default_settings sample_workbook = Some ''RPT_ALL_COSTS_V2_GVA''"
    by (simp add: js_index_def sample_workbook_def)
  show ?thesis using wf no len a' b e c by simp
qed

theorem validateFile_fails_iff_witness:
  "\<not> isl (validateFile default_settings sample_workbook) \<and>
   isl (validateFile default_settings
          (sample_workbook\<lparr>Sheets := (Sheets sample_workbook)(''position_list1039861856'' \<mapsto> plain_sheet 77 1)\<rparr>)) \<and>
   isl (validateFile default_settings
          (sample_workbook\<lparr>Sheets := (Sheets sample_workbook)(''RPT_POSITION_LIST'' \<mapsto> plain_sheet 90 4)\<rparr>))"
  using validateFile_fails_iff[of default_settings sample_workbook]
    validateFile_fails_iff[of default_settings
      "sample_workbook\<lparr>Sheets := (Sheets sample_workbook)(''position_list1039861856'' \<mapsto> plain_sheet 77 1)\<rparr>"]
    validateFile_fails_iff[of default_settings
      "sample_workbook\<lparr>Sheets := (Sheets sample_workbook)(''RPT_POSITION_LIST'' \<mapsto> plain_sheet 90 4)\<rparr>"]
  by (simp add: MissingSheet_def MissingColumn_def InsufficientRows_def lacks_column_def
      column_populated_def default_settings_def sample_workbook_def plain_sheet_def rawSheet1_def
      rawSheet2_def rawSheet3_def sheet_choice_def js_index_def property_key_def decode_col_values
      sheet1_columns_def sheet2_columns_def sheet3_columns_def)

section \<open>Properties of the normalisation\<close>

lemma falsy_values:
  "\<not> truthy v \<longleftrightarrow> v = Undefined \<or> v = Null \<or> v = Str [] \<or> v = Num 0 \<or> v = NaN \<or> v = Bool False"
  by (cases v) auto

lemma upperChar_not_lower: "\<not> isLower (upperChar c)"
proof (cases "isLower c")
  case True
  then have b: "97 \<le> (of_char c :: nat)" "(of_char c :: nat) \<le> 122"
    by (simp_all add: isLower_def)
  then have "(of_char c :: nat) - 32 < 256" by simp
  then have "(of_char (char_of ((of_char c :: nat) - 32)) :: nat) = of_char c - 32"
    by simp
  with b True show ?thesis
    by (simp add: upperChar_def isLower_def)
next
  case False
  then show ?thesis by (simp add: upperChar_def)
qed

lemma upperChar_white: "isWhiteSpace (upperChar c) \<longleftrightarrow> isWhiteSpace c"
proof (cases "isLower c")
  case True
  then have b: "97 \<le> (of_char c :: nat)" "(of_char c :: nat) \<le> 122"
    by (simp_all add: isLower_def)
  then have "(of_char c :: nat) - 32 < 256" by simp
  then have "(of_char (char_of ((of_char c :: nat) - 32)) :: nat) = of_char c - 32"
    by simp
  with b True show ?thesis
    by (auto simp: upperChar_def isWhiteSpace_def)
next
  case False
  then show ?thesis by (simp add: upperChar_def)
qed

lemma trim_hd: "trim s \<noteq> [] \<Longrightarrow> \<not> isWhiteSpace (hd (trim s))"
proof -
  assume ne: "trim s \<noteq> []"
  let ?t = "dropWhile isWhiteSpace s"
  have t: "trim s = rev (dropWhile isWhiteSpace (rev ?t))" by (simp add: trim_def)
  have tne: "?t \<noteq> []"
  proof
    assume "?t = []"
    with t have "trim s = []" by simp
    with ne show False by simp
  qed
  then have h: "\<not> isWhiteSpace (hd ?t)" by (rule hd_dropWhile)
  have "rev ?t = takeWhile isWhiteSpace (rev ?t) @ dropWhile isWhiteSpace (rev ?t)"
    by simp
  then have "?t = rev (dropWhile isWhiteSpace (rev ?t)) @ rev (takeWhile isWhiteSpace (rev ?t))"
    by (metis rev_append rev_rev_ident)
  with t have "?t = trim s @ rev (takeWhile isWhiteSpace (rev ?t))" by simp
  with ne have "hd ?t = hd (trim s)" by (metis hd_append2)
  with h show ?thesis by simp
qed

lemma trim_last: "trim s \<noteq> [] \<Longrightarrow> \<not> isWhiteSpace (last (trim s))"
proof -
  assume ne: "trim s \<noteq> []"
  let ?u = "dropWhile isWhiteSpace (rev (dropWhile isWhiteSpace s))"
  have t: "trim s = rev ?u" by (simp add: trim_def)
  with ne have "?u \<noteq> []" by auto
  then have "\<not> isWhiteSpace (hd ?u)" by (rule hd_dropWhile)
  moreover have "last (trim s) = hd ?u" using t \<open>?u \<noteq> []\<close> by (simp add: last_rev)
  ultimately show ?thesis by simp
qed

text \<open>
  Claim C4, as amended. \<^verbatim>\<open>normalize\<close> returns the empty string for every falsy value
  (\<^verbatim>\<open>undefined\<close>, \<^verbatim>\<open>null\<close>, the empty string, and also \<^verbatim>\<open>0\<close>, \<^verbatim>\<open>NaN\<close> and
  \<^verbatim>\<open>false\<close>); for every other value it returns the value converted to a string,
  trimmed of surrounding white space and in capitals. The result holds no small letter
  and neither starts nor ends with white space.
\<close>

theorem normalize_value_cases:
  "(\<not> truthy v \<longrightarrow> normalize_value h v = []) \<and>
   (truthy v \<longrightarrow> normalize_value h v = toUpperCase (trim (ToString h v))) \<and>
   (\<not> truthy v \<longleftrightarrow> v = Undefined \<or> v = Null \<or> v = Str [] \<or> v = Num 0 \<or> v = NaN \<or> v = Bool False) \<and>
   (\<forall>c \<in> set (normalize_value h v). \<not> isLower c) \<and>
   (normalize_value h v \<noteq> [] \<longrightarrow>
      \<not> isWhiteSpace (hd (normalize_value h v)) \<and> \<not> isWhiteSpace (last (normalize_value h v)))"
proof (intro conjI impI ballI)
  show "\<not> truthy v \<longleftrightarrow> v = Undefined \<or> v = Null \<or> v = Str [] \<or> v = Num 0 \<or> v = NaN \<or> v = Bool False"
    by (rule falsy_values)
next
  fix c assume "c \<in> set (normalize_value h v)"
  then show "\<not> isLower c"
    by (auto simp: normalize_value_def toUpperCase_def upperChar_not_lower split: if_splits)
next
  assume ne: "normalize_value h v \<noteq> []"
  then have tv: "truthy v" and n: "normalize_value h v = map upperChar (trim (ToString h v))"
    by (auto simp: normalize_value_def toUpperCase_def split: if_splits)
  from ne n have tne: "trim (ToString h v) \<noteq> []" by auto
  show "\<not> isWhiteSpace (hd (normalize_value h v))"
    using trim_hd[OF tne] tne by (simp add: n hd_map upperChar_white)
  show "\<not> isWhiteSpace (last (normalize_value h v))"
    using trim_last[OF tne] tne by (simp add: n last_map upperChar_white)
qed (simp_all add: normalize_value_def)

theorem normalize_value_cases_witness:
  "truthy (Str ''  midlands '') \<and> normalize_value example_host (Str ''  midlands '') = ''MIDLANDS'' \<and>
   \<not> truthy NaN \<and> normalize_value example_host NaN = [] \<and>
   normalize_value example_host (Num 42) = ''42''"
proof -
  have a: "truthy (Str ''  midlands '')" "\<not> truthy NaN" "truthy (Num 42)" by simp_all
  have b: "toUpperCase (trim (ToString example_host (Str ''  midlands ''))) = ''MIDLANDS''"
    by code_simp
  have c: "toUpperCase (trim (ToString example_host (Num 42))) = ''42''"
    by code_simp
  show ?thesis
    using normalize_value_cases[of "Str ''  midlands ''" example_host]
      normalize_value_cases[of NaN example_host] normalize_value_cases[of "Num 42" example_host] a b c
    by simp
qed

text \<open>
  The claim as the specification words it fails at the number zero: the specification
  asks for the text \<^verbatim>\<open>0\<close>, the code returns the empty string.
\<close>

theorem normalize_zero_counterexample:
  "normalize_value example_host (Num 0) = [] \<and> normalize_spec example_host (Num 0) = ''0''"
  by code_simp


section \<open>Properties of the date-range filter\<close>

text \<open>
  Claim C10. For every preset the record filter returns a subsequence of the raw records;
  the preset \<^verbatim>\<open>ALL\<close>, an empty preset and any unrecognised preset return all records
  unchanged; and a record whose date is \<^verbatim>\<open>null\<close> is in none of the \<^verbatim>\<open>MTD\<close>,
  \<^verbatim>\<open>YTD\<close> and \<^verbatim>\<open>QTD\<close> results.
\<close>

theorem getRecordsByPreset_subseq:
  "subseq (getRecordsByPreset h now preset all) all \<and>
   (preset = None \<or> preset = Some [] \<or> preset = Some ''ALL'' \<or>
      preset \<notin> {Some ''MTD'', Some ''YTD'', Some ''QTD''} \<longrightarrow>
      getRecordsByPreset h now preset all = all) \<and>
   (preset \<in> {Some ''MTD'', Some ''YTD'', Some ''QTD''} \<longrightarrow>
      (\<forall>r \<in> set all. date r = None \<longrightarrow> r \<notin> set (getRecordsByPreset h now preset all)))"
  by (auto simp: getRecordsByPreset_def Let_def)

theorem getRecordsByPreset_subseq_witness:
  "subseq (getRecordsByPreset example_host 1705708800000 (Some ''MTD'') example_records) example_records \<and>
   getRecordsByPreset example_host 1705708800000 (Some ''MTD'') example_records = [example_records ! 0] \<and>
   date (example_records ! 1) = None \<and>
   example_records ! 1 \<notin> set (getRecordsByPreset example_host 1705708800000 (Some ''QTD'') example_records) \<and>
   getRecordsByPreset example_host 1705708800000 (Some ''WEEK'') example_records = example_records"
proof -
  have a: "getRecordsByPreset example_host 1705708800000 (Some ''MTD'') example_records = [example_records ! 0]"
    by code_simp
  have b: "date (example_records ! 1) = None" "example_records ! 1 \<in> set example_records"
    by (simp_all add: example_records_def)
  have c: "Some ''WEEK'' \<notin> {Some ''MTD'', Some ''YTD'', Some ''QTD''}" by simp
  show ?thesis
    using getRecordsByPreset_subseq[of example_host 1705708800000 "Some ''MTD''" example_records]
      getRecordsByPreset_subseq[of example_host 1705708800000 "Some ''QTD''" example_records]
      getRecordsByPreset_subseq[of example_host 1705708800000 "Some ''WEEK''" example_records]
      a b c
    by simp
qed

section \<open>Properties of the dashboard metrics\<close>


lemma normalize_or_empty: "normalize_value h (js_or v (Str [])) = normalize_value h v"
  by (simp add: js_or_def normalize_value_def)

lemma product_toRecord: "product (toRecord h row) = normalize_value h (cell row 12)"
  by (simp add: toRecord_def normalize_or_empty)

lemma volume_toRecord: "volume (toRecord h row) = volume_of (cell row 16)"
  by (simp add: toRecord_def)

lemma kept_iff_code_included:
  "product (toRecord h row) \<noteq> [] \<and> volume (toRecord h row) \<noteq> 0 \<longleftrightarrow> code_included h row"
  by (auto simp: product_toRecord volume_toRecord volume_of_def code_included_def split: option.splits)

lemma code_included_nonempty: "code_included h row \<Longrightarrow> length row > 0"
  by (cases row) (auto simp: code_included_def cell_def js_index_def normalize_value_def)

lemma buildRawRecords_eq:
  "buildRawRecords h rawData = map (toRecord h) (filter (code_included h) (drop 1 rawData))"
proof -
  have "filter (\<lambda>r. product r \<noteq> [] \<and> volume r \<noteq> 0) (map (toRecord h) rows) =
        map (toRecord h) (filter (code_included h) rows)" for rows
    by (induction rows) (auto simp: kept_iff_code_included)
  moreover have "filter (code_included h) (filter (\<lambda>row. length row > 0) rows) = filter (code_included h) rows" for rows
    by (induction rows) (auto dest: code_included_nonempty)
  ultimately show ?thesis by (simp add: buildRawRecords_def)
qed

lemma set_add_set: "set (set_add x xs) = insert x (set xs)"
  by (auto simp: set_add_def)

lemma set_add_distinct: "distinct xs \<Longrightarrow> distinct (set_add x xs)"
  by (auto simp: set_add_def)

lemma fold_visit_record:
  "fold visit_record rs (ud, tv, pd) = (ud', tv', pd') \<Longrightarrow>
   tv' = tv + sum_list (map volume rs) \<and>
   set ud' = set ud \<union> {deal r | r. r \<in> set rs \<and> deal r \<noteq> []} \<and>
   (distinct ud \<longrightarrow> distinct ud') \<and>
   (\<forall>k. pd' k = (if \<exists>r \<in> set rs. product r = k
                  then Some (or_zero (pd k) + sum_list (map volume (filter (\<lambda>r. product r = k) rs)))
                  else pd k))"
proof (induction rs arbitrary: ud tv pd)
  case Nil
  then show ?case by simp
next
  case (Cons r rs)
  let ?ud = "if deal r \<noteq> [] then set_add (deal r) ud else ud"
  let ?pd = "pd(product r \<mapsto> or_zero (pd (product r)) + volume r)"
  have "visit_record r (ud, tv, pd) = (?ud, tv + volume r, ?pd)"
    by (simp add: visit_record_def)
  with Cons.prems have "fold visit_record rs (?ud, tv + volume r, ?pd) = (ud', tv', pd')"
    by (simp del: fun_upd_apply)
  from Cons.IH[OF this]
  have tv: "tv' = tv + volume r + sum_list (map volume rs)"
    and ud: "set ud' = set ?ud \<union> {deal r | r. r \<in> set rs \<and> deal r \<noteq> []}"
    and di: "distinct ?ud \<longrightarrow> distinct ud'"
    and pd: "\<And>k. pd' k = (if \<exists>r \<in> set rs. product r = k
                  then Some (or_zero (?pd k) + sum_list (map volume (filter (\<lambda>r. product r = k) rs)))
                  else ?pd k)"
    by blast+
  have 1: "tv' = tv + sum_list (map volume (r # rs))" using tv by simp
  have 2: "set ud' = set ud \<union> {deal x | x. x \<in> set (r # rs) \<and> deal x \<noteq> []}"
    using ud by (auto simp: set_add_set)
  have 3: "distinct ud \<longrightarrow> distinct ud'" using di by (simp add: set_add_distinct)
  have 4: "pd' k = (if \<exists>x \<in> set (r # rs). product x = k
                  then Some (or_zero (pd k) + sum_list (map volume (filter (\<lambda>x. product x = k) (r # rs))))
                  else pd k)" for k
    using pd[of k] by (auto simp: or_zero_def)
  from 1 2 3 4 show ?case by blast
qed


text \<open>
  Claim C3, as amended. At the preset \<^verbatim>\<open>ALL\<close> (the default) a data row of the primary
  sheet is in the dashboard metrics exactly when its normalised product is not empty and
  its parsed quantity is a number other than zero: the records are those of exactly
  these rows, in order, and the total volume, the deal count and the product
  distribution are computed over all of them.
\<close>

theorem metrics_cover_included_rows:
  assumes "datePreset p = None \<or> datePreset p = Some [] \<or> datePreset p = Some ''ALL''"
    and "Sheets (workbook_of p) (property_key (rawSheet1 st (workbook_of p))) = Some sh"
    and "p' = calculateDashboardMetrics h now st p"
  shows "rawRecords p' = map (toRecord h) (filter (code_included h) (drop 1 (json_rows sh))) \<and>
         filteredRecords p' = rawRecords p' \<and>
         totalVolume (summaryMetrics p') = sum_list (map volume (rawRecords p')) \<and>
         totalDeals (summaryMetrics p') = card {deal r | r. r \<in> set (rawRecords p') \<and> deal r \<noteq> []} \<and>
         (\<forall>k. productDistribution (summaryMetrics p') k =
            (if \<exists>r \<in> set (rawRecords p'). product r = k
             then Some (sum_list (map volume (filter (\<lambda>r. product r = k) (rawRecords p'))))
             else None))"
proof -
  define recs where "recs = buildRawRecords h (json_rows sh)"
  define p1 where "p1 = p\<lparr>rawRecords := recs\<rparr>"
  define p2 where "p2 = (if is_unset (datePreset p1) then p1\<lparr>datePreset := Some ''ALL''\<rparr> else p1)"
  have p': "p' = refreshMetricsFromRecords h now p2"
    using assms(2,3) unfolding p2_def p1_def recs_def
    by (simp add: calculateDashboardMetrics_def Let_def)
  have dp: "datePreset p2 = Some ''ALL''" and rr: "rawRecords p2 = recs"
    using assms(1) by (auto simp: p2_def p1_def is_unset_def)
  have all: "getRecordsByPreset h now (datePreset p2) (rawRecords p2) = recs"
    by (simp add: dp rr getRecordsByPreset_def)
  obtain ud tv pd where f: "fold visit_record recs ([], 0, Map.empty) = (ud, tv, pd)"
    by (cases "fold visit_record recs ([], 0, Map.empty)") auto
  from fold_visit_record[OF f]
  have tv: "tv = sum_list (map volume recs)"
    and ud: "set ud = {deal r | r. r \<in> set recs \<and> deal r \<noteq> []}"
    and di: "distinct ud"
    and pd: "\<And>k. pd k = (if \<exists>r \<in> set recs. product r = k
                  then Some (sum_list (map volume (filter (\<lambda>r. product r = k) recs)))
                  else None)"
    by (auto simp: or_zero_def)
  have r: "rawRecords p' = recs" "filteredRecords p' = recs"
    "summaryMetrics p' = \<lparr>totalDeals = length ud, totalVolume = tv, productDistribution = pd\<rparr>"
    using all f rr by (simp_all add: p' refreshMetricsFromRecords_def Let_def)
  have len: "length ud = card {deal r | r. r \<in> set recs \<and> deal r \<noteq> []}"
    using distinct_card[OF di] ud by simp
  have e: "recs = map (toRecord h) (filter (code_included h) (drop 1 (json_rows sh)))"
    by (simp add: recs_def buildRawRecords_eq)
  have "rawRecords p' = map (toRecord h) (filter (code_included h) (drop 1 (json_rows sh)))"
    using r(1) e by simp
  moreover have "filteredRecords p' = rawRecords p'"
    using r by simp
  moreover have "totalVolume (summaryMetrics p') = sum_list (map volume (rawRecords p'))"
    using r tv by simp
  moreover have "totalDeals (summaryMetrics p') = card {deal r | r. r \<in> set (rawRecords p') \<and> deal r \<noteq> []}"
    using r len by simp
  moreover have "productDistribution (summaryMetrics p') k =
            (if \<exists>r \<in> set (rawRecords p'). product r = k
             then Some (sum_list (map volume (filter (\<lambda>r. product r = k) (rawRecords p'))))
             else None)" for k
    using r pd[of k] by simp
  ultimately show ?thesis by blast
qed

text \<open>
  The claim as the specification words it fails for a row with a product and the
  quantity zero: the row is left out of the records, and its deal is not counted.
\<close>

theorem zero_quantity_row_dropped:
  "spec_included (deal_row ''DEAL009'' ''GASOIL'' (Num 0) ''2024-01-15'') \<and>
   rawRecords (calculateDashboardMetrics example_host 1705276800000 default_settings
     (example_processor [header_row, deal_row ''DEAL009'' ''GASOIL'' (Num 0) ''2024-01-15''])) = [] \<and>
   totalDeals (summaryMetrics (calculateDashboardMetrics example_host 1705276800000 default_settings
     (example_processor [header_row, deal_row ''DEAL009'' ''GASOIL'' (Num 0) ''2024-01-15'']))) = 0"
  by code_simp

theorem metrics_cover_included_rows_witness:
  "datePreset (example_processor example_rows) = None \<and>
   map product (rawRecords (calculateDashboardMetrics example_host 1705276800000 default_settings
     (example_processor example_rows))) = [''PROD001'', ''MIDLANDS'', ''PROD003''] \<and>
   totalVolume (summaryMetrics (calculateDashboardMetrics example_host 1705276800000 default_settings
     (example_processor example_rows))) = 450"
proof -
  let ?p = "example_processor example_rows"
  let ?p' = "calculateDashboardMetrics example_host 1705276800000 default_settings ?p"
  have a: "datePreset ?p = None" by (simp add: example_processor_def)
  have b: "Sheets (workbook_of ?p) (property_key (rawSheet1 default_settings (workbook_of ?p))) =
           Some \<lparr>ref_e_c = Some 77, json_rows = example_rows\<rparr>"
    by (simp add: example_processor_def rawSheet1_def default_settings_def sheet_choice_def
        js_index_def property_key_def)
  have c: "map (toRecord example_host) (filter (code_included example_host) (drop 1 example_rows)) =
           [\<lparr>deal = ''DEAL001'', product = ''PROD001'', volume = 100,
              date = Some (Some 1705276800000), location = ''ROTTERDAM''\<rparr>,
            \<lparr>deal = ''DEAL002'', product = ''MIDLANDS'', volume = 200,
              date = Some (Some 1705708800000), location = ''ROTTERDAM''\<rparr>,
            \<lparr>deal = ''DEAL003'', product = ''PROD003'', volume = 150,
              date = Some (Some 1707523200000), location = ''ROTTERDAM''\<rparr>]"
    by code_simp
  from metrics_cover_included_rows[OF _ b refl, of example_host 1705276800000] a c
  show ?thesis by simp
qed

section \<open>Properties of the variance selection\<close>

lemma getFilteredDeals_origin:
  assumes "d \<in> set (getFilteredDeals (Some ds) f)"
  shows "or_zero (difference d) > 0 \<and>
         (\<exists>d0 \<in> set ds. deal_id d = deal_id d0 \<and> difference d = difference d0 \<and>
            formatted_quantity d = formatted_quantity d0 \<and>
            comparison_quantity d = comparison_quantity d0)"
  using assms by (auto simp: getFilteredDeals_def Let_def split: if_splits)

lemma getFilteredDeals_None: "getFilteredDeals None f = []"
  by (simp add: getFilteredDeals_def)

lemma sort_descending_sorted:
  "sorted_wrt (\<lambda>x y. key x \<ge> key y) (sort_descending key xs)"
proof -
  have "sorted (map (\<lambda>x. - key x) (sort_key (\<lambda>x. - key x) xs))"
    by (rule sorted_sort_key)
  then show ?thesis
    by (simp add: sort_descending_def sorted_map)
qed

lemma sort_descending_set: "set (sort_descending key xs) = set xs"
  by (simp add: sort_descending_def)

lemma take_drop_sorted_wrt:
  assumes "sorted_wrt P xs" "x \<in> set (take n xs)" "y \<in> set (drop n xs)"
  shows "P x y"
proof -
  have "sorted_wrt P (take n xs @ drop n xs)" using assms(1) by simp
  then show ?thesis using assms(2,3) unfolding sorted_wrt_append by blast
qed

text \<open>
  Claim C5. The variance selection (\<^verbatim>\<open>topDeals\<close> of the filtered deals) holds only
  deals whose difference is strictly positive, in descending order of difference, at most
  20 of them, and they are the largest: no filtered deal left out has a larger
  difference than one that is in. Each selected deal is a deal of the result with a
  positive difference, so a deal with a zero or negative difference never appears.
\<close>

theorem variance_selection_positive_top20:
  "(\<forall>d \<in> set (topDeals (getFilteredDeals a f)). or_zero (difference d) > 0) \<and>
   sorted_wrt (\<lambda>x y. or_zero (difference x) \<ge> or_zero (difference y)) (topDeals (getFilteredDeals a f)) \<and>
   length (topDeals (getFilteredDeals a f)) \<le> 20 \<and>
   (\<forall>x \<in> set (topDeals (getFilteredDeals a f)).
      \<forall>y \<in> set (getFilteredDeals a f). y \<notin> set (topDeals (getFilteredDeals a f)) \<longrightarrow>
        or_zero (difference y) \<le> or_zero (difference x)) \<and>
   (\<forall>ds. a = Some ds \<longrightarrow>
      (\<forall>d \<in> set (topDeals (getFilteredDeals a f)).
         \<exists>d0 \<in> set ds. deal_id d = deal_id d0 \<and> difference d = difference d0 \<and>
            or_zero (difference d0) > 0))"
proof -
  let ?F = "getFilteredDeals a f"
  let ?key = "\<lambda>d. or_zero (difference d)"
  let ?S = "sort_descending ?key ?F"
  have T: "topDeals ?F = take 20 ?S" by (simp add: topDeals_def)
  have sub: "set (topDeals ?F) \<subseteq> set ?F"
    using set_take_subset[of 20 ?S] by (simp add: T sort_descending_set)
  have pos: "or_zero (difference d) > 0" if "d \<in> set ?F" for d
  proof (cases a)
    case None
    with that show ?thesis by (simp add: getFilteredDeals_None)
  next
    case (Some ds)
    with that getFilteredDeals_origin[of d ds f] show ?thesis by simp
  qed
  have 1: "\<forall>d \<in> set (topDeals ?F). or_zero (difference d) > 0"
    using sub pos by blast
  have srt: "sorted_wrt (\<lambda>x y. ?key x \<ge> ?key y) ?S"
    by (rule sort_descending_sorted)
  have 2: "sorted_wrt (\<lambda>x y. ?key x \<ge> ?key y) (topDeals ?F)"
    unfolding T using srt by (rule sorted_wrt_take)
  have 3: "length (topDeals ?F) \<le> 20" by (simp add: T)
  have 4: "?key y \<le> ?key x"
    if x: "x \<in> set (topDeals ?F)" and y: "y \<in> set ?F" and n: "y \<notin> set (topDeals ?F)" for x y
  proof -
    have "set ?S = set (take 20 ?S) \<union> set (drop 20 ?S)"
      by (metis append_take_drop_id set_append)
    with y n have "y \<in> set (drop 20 ?S)"
      by (auto simp: T sort_descending_set)
    with take_drop_sorted_wrt[OF srt, of x 20 y] x show ?thesis by (simp add: T)
  qed
  have 5: "\<exists>d0 \<in> set ds. deal_id d = deal_id d0 \<and> difference d = difference d0 \<and> or_zero (difference d0) > 0"
    if "a = Some ds" "d \<in> set (topDeals ?F)" for ds d
  proof -
    from that sub have "d \<in> set (getFilteredDeals (Some ds) f)" by auto
    from getFilteredDeals_origin[OF this] show ?thesis by auto
  qed
  from 1 2 3 4 5 show ?thesis by blast
qed

theorem variance_selection_positive_top20_witness:
  "map deal_id (topDeals (getFilteredDeals (Some example_deals) no_filters)) = [''D4'', ''D1''] \<and>
   map difference (topDeals (getFilteredDeals (Some example_deals) no_filters)) = [Some 500, Some 200] \<and>
   sorted_wrt (\<lambda>x y. or_zero (difference x) \<ge> or_zero (difference y))
     (topDeals (getFilteredDeals (Some example_deals) no_filters)) \<and>
   length (topDeals (getFilteredDeals (Some example_deals) no_filters)) \<le> 20"
proof -
  have "map deal_id (topDeals (getFilteredDeals (Some example_deals) no_filters)) = [''D4'', ''D1'']"
    by code_simp
  moreover have "map difference (topDeals (getFilteredDeals (Some example_deals) no_filters)) = [Some 500, Some 200]"
    by code_simp
  ultimately show ?thesis
    using variance_selection_positive_top20[of "Some example_deals" no_filters] by simp
qed

section \<open>Properties of the unregistered-cost aggregation\<close>

lemma fold_inner: "fold (visit_cost i) cs reg = fold visit_pair (map (\<lambda>c. (i, c)) cs) reg"
  by (induction cs arbitrary: reg) (simp_all add: visit_pair_def)

lemma fold_deals_pairs:
  "fold (\<lambda>d reg. fold (visit_cost (deal_id d)) (costs_or_empty d) reg) ds reg =
   fold visit_pair (all_pairs ds) reg"
  by (induction ds arbitrary: reg) (simp_all add: all_pairs_def fold_inner)

lemma of_type_snoc:
  "of_type k (ps @ [(i, c)]) =
     (if status c = ''Unregistered'' \<and> cost_type c = k then of_type k ps @ [(i, c)] else of_type k ps)"
  by (simp add: of_type_def unreg_def)

lemma unreg_snoc:
  "unreg (ps @ [(i, c)]) = (if status c = ''Unregistered'' then unreg ps @ [(i, c)] else unreg ps)"
  by (simp add: unreg_def)

lemma registry_get_Some:
  "registry_get k reg = Some e \<Longrightarrow> e \<in> set reg \<and> entry_cost_type e = k"
  by (auto simp: registry_get_def find_Some_iff)

lemma registry_get_None:
  "registry_get k reg = None \<longleftrightarrow> k \<notin> set (map entry_cost_type reg)"
  by (auto simp: registry_get_def find_None_iff)

lemma entry_ok_other:
  "entry_ok ps e \<Longrightarrow> entry_cost_type e \<noteq> cost_type c \<Longrightarrow> entry_ok (ps @ [(i, c)]) e"
  by (simp add: entry_ok_def of_type_snoc)

lemma entry_ok_skip:
  "entry_ok ps e \<Longrightarrow> status c \<noteq> ''Unregistered'' \<Longrightarrow> entry_ok (ps @ [(i, c)]) e"
  by (simp add: entry_ok_def of_type_snoc)

lemma entry_ok_update:
  assumes "entry_ok ps e" "entry_cost_type e = cost_type c" "status c = ''Unregistered''"
  shows "entry_ok (ps @ [(i, c)])
           (e\<lparr>impact := impact e + \<bar>or_zero (cost_difference c)\<bar>,
              deals := set_add i (deals e), deal_count := length (set_add i (deals e))\<rparr>)"
  using assms by (auto simp: entry_ok_def of_type_snoc set_add_def)

lemma entry_ok_fresh:
  assumes "of_type (cost_type c) ps = []" "status c = ''Unregistered''"
  shows "entry_ok (ps @ [(i, c)])
           (\<lparr>entry_cost_type = cost_type c, impact = 0, deal_count = 0, deals = []\<rparr>
              \<lparr>impact := 0 + \<bar>or_zero (cost_difference c)\<bar>,
               deals := set_add i [], deal_count := length (set_add i ([]::string list))\<rparr>)"
  using assms by (simp add: entry_ok_def of_type_snoc set_add_def)

lemma of_type_empty:
  "k \<notin> (\<lambda>(i, c). cost_type c) ` set (unreg ps) \<Longrightarrow> of_type k ps = []"
  by (auto simp: of_type_def filter_empty_conv)

lemma reg_ok_step:
  assumes "reg_ok ps reg"
  shows "reg_ok (ps @ [(i, c)]) (visit_cost i c reg)"
proof (cases "status c = ''Unregistered''")
  case False
  with assms show ?thesis
    by (auto simp: reg_ok_def visit_cost_def unreg_snoc entry_ok_skip)
next
  case U: True
  let ?k = "cost_type c"
  from assms have d: "distinct (map entry_cost_type reg)"
    and ks: "set (map entry_cost_type reg) = (\<lambda>(i, c). cost_type c) ` set (unreg ps)"
    and ok: "\<And>e. e \<in> set reg \<Longrightarrow> entry_ok ps e"
    by (auto simp: reg_ok_def)
  show ?thesis
  proof (cases "registry_get ?k reg")
    case None
    then have nk: "?k \<notin> set (map entry_cost_type reg)" by (simp add: registry_get_None)
    then have ne: "\<not> list_ex (\<lambda>x. entry_cost_type x = ?k) reg" by (force simp: list_ex_iff)
    let ?e = "\<lparr>entry_cost_type = ?k, impact = 0, deal_count = 0, deals = []\<rparr>
              \<lparr>impact := 0 + \<bar>or_zero (cost_difference c)\<bar>,
               deals := set_add i [], deal_count := length (set_add i ([]::string list))\<rparr>"
    have v: "visit_cost i c reg = reg @ [?e]"
      using U None ne by (simp add: visit_cost_def registry_set_def Let_def)
    have emp: "of_type ?k ps = []" using nk ks by (intro of_type_empty) simp
    have e_ok: "entry_ok (ps @ [(i, c)]) ?e" using emp U by (rule entry_ok_fresh)
    have others: "entry_ok (ps @ [(i, c)]) x" if "x \<in> set reg" for x
    proof -
      from that nk have "entry_cost_type x \<noteq> ?k" by force
      with ok[OF that] show ?thesis by (rule entry_ok_other)
    qed
    have "distinct (map entry_cost_type (reg @ [?e]))" using d nk by simp
    moreover have "set (map entry_cost_type (reg @ [?e])) = (\<lambda>(i, c). cost_type c) ` set (unreg (ps @ [(i, c)]))"
      using ks U by (auto simp: unreg_snoc)
    moreover have "\<forall>x \<in> set (reg @ [?e]). entry_ok (ps @ [(i, c)]) x"
      using e_ok others by auto
    ultimately show ?thesis unfolding v reg_ok_def by blast
  next
    case (Some e)
    then have ein: "e \<in> set reg" and ek: "entry_cost_type e = ?k"
      using registry_get_Some by blast+
    then have ex: "list_ex (\<lambda>x. entry_cost_type x = ?k) reg" by (auto simp: list_ex_iff)
    let ?e = "e\<lparr>impact := impact e + \<bar>or_zero (cost_difference c)\<bar>,
              deals := set_add i (deals e), deal_count := length (set_add i (deals e))\<rparr>"
    have v: "visit_cost i c reg = map (\<lambda>x. if entry_cost_type x = ?k then ?e else x) reg"
      using U Some ex by (simp add: visit_cost_def registry_set_def Let_def)
    have e_ok: "entry_ok (ps @ [(i, c)]) ?e" using ok[OF ein] ek U by (rule entry_ok_update)
    have keys: "map entry_cost_type (map (\<lambda>x. if entry_cost_type x = ?k then ?e else x) reg) = map entry_cost_type reg"
      using ek by (induction reg) auto
    have kin: "?k \<in> set (map entry_cost_type reg)" using ein ek by force
    have "distinct (map entry_cost_type (visit_cost i c reg))" using d by (simp only: v keys)
    moreover have "set (map entry_cost_type (visit_cost i c reg)) = (\<lambda>(i, c). cost_type c) ` set (unreg (ps @ [(i, c)]))"
      using ks kin U unfolding v keys by (auto simp: unreg_snoc)
    moreover have "\<forall>x \<in> set (visit_cost i c reg). entry_ok (ps @ [(i, c)]) x"
      unfolding v using e_ok ok by (auto intro: entry_ok_other)
    ultimately show ?thesis unfolding reg_ok_def by blast
  qed
qed

lemma reg_ok_fold: "reg_ok ps (fold visit_pair ps [])"
proof (induction ps rule: rev_induct)
  case Nil
  show ?case by (simp add: reg_ok_def unreg_def)
next
  case (snoc p ps)
  obtain i c where p: "p = (i, c)" by (cases p)
  from reg_ok_step[OF snoc.IH, of i c] show ?case
    by (simp add: p visit_pair_def)
qed

lemma distinct_map_insort_key:
  "distinct (map f (insort_key g x xs)) \<longleftrightarrow> f x \<notin> f ` set xs \<and> distinct (map f xs)"
  by (induction xs) (auto simp: set_insort_key)

lemma distinct_map_sort_key: "distinct (map f (sort_key g xs)) \<longleftrightarrow> distinct (map f xs)"
  by (induction xs) (simp_all add: distinct_map_insort_key)

lemma sorted_desc_impact:
  "sorted_wrt (\<lambda>a b. impact a \<ge> impact b) (sort_descending impact reg)"
proof -
  have "sorted (map (\<lambda>x. - impact x) (sort_key (\<lambda>x. - impact x) reg))"
    by (rule sorted_sort_key)
  then show ?thesis by (simp add: sort_descending_def sorted_map)
qed

text \<open>
  Claim C6. \<^verbatim>\<open>aggregateUnregistered\<close> returns exactly one entry per cost type that has a
  cost comparison with status Unregistered. An entry's deals are the distinct ids of the
  deals on which its cost type is Unregistered, its deal count is their number, its
  impact is the sum of the absolute differences of those comparisons, and the entries
  come in descending order of impact.
\<close>

theorem aggregateUnregistered_entries:
  "distinct (map entry_cost_type (aggregateUnregistered ds)) \<and>
   set (map entry_cost_type (aggregateUnregistered ds)) =
     (\<lambda>(i, c). cost_type c) ` set (unregistered_pairs ds) \<and>
   (\<forall>e \<in> set (aggregateUnregistered ds).
      set (deals e) = fst ` set (unregistered_of (entry_cost_type e) ds) \<and>
      distinct (deals e) \<and>
      deal_count e = card (fst ` set (unregistered_of (entry_cost_type e) ds)) \<and>
      impact e = sum_list (map (\<lambda>(i, c). \<bar>or_zero (cost_difference c)\<bar>)
                   (unregistered_of (entry_cost_type e) ds))) \<and>
   sorted_wrt (\<lambda>a b. impact a \<ge> impact b) (aggregateUnregistered ds)"
proof -
  define reg where "reg = fold visit_pair (all_pairs ds) []"
  have agg: "aggregateUnregistered ds = sort_descending impact reg"
    by (simp add: aggregateUnregistered_def fold_deals_pairs reg_def)
  have ok: "reg_ok (all_pairs ds) reg" unfolding reg_def by (rule reg_ok_fold)
  have s: "set (aggregateUnregistered ds) = set reg"
    by (simp add: agg sort_descending_def)
  have 1: "distinct (map entry_cost_type (aggregateUnregistered ds))"
    using ok by (simp add: agg sort_descending_def distinct_map_sort_key reg_ok_def)
  have 2: "set (map entry_cost_type (aggregateUnregistered ds)) =
           (\<lambda>(i, c). cost_type c) ` set (unregistered_pairs ds)"
    using ok s by (simp add: reg_ok_def unregistered_pairs_def)
  have 3: "set (deals e) = fst ` set (unregistered_of (entry_cost_type e) ds) \<and>
      distinct (deals e) \<and>
      deal_count e = card (fst ` set (unregistered_of (entry_cost_type e) ds)) \<and>
      impact e = sum_list (map (\<lambda>(i, c). \<bar>or_zero (cost_difference c)\<bar>)
                   (unregistered_of (entry_cost_type e) ds))"
    if "e \<in> set (aggregateUnregistered ds)" for e
  proof -
    from that s ok have e: "entry_ok (all_pairs ds) e" by (auto simp: reg_ok_def)
    then have a: "set (deals e) = fst ` set (unregistered_of (entry_cost_type e) ds)"
      and b: "distinct (deals e)" and c: "deal_count e = length (deals e)"
      and d: "impact e = sum_list (map (\<lambda>(i, c). \<bar>or_zero (cost_difference c)\<bar>)
                   (unregistered_of (entry_cost_type e) ds))"
      by (simp_all add: entry_ok_def unregistered_of_def)
    from distinct_card[OF b] a c have "deal_count e = card (fst ` set (unregistered_of (entry_cost_type e) ds))"
      by simp
    with a b d show ?thesis by blast
  qed
  have 4: "sorted_wrt (\<lambda>a b. impact a \<ge> impact b) (aggregateUnregistered ds)"
    unfolding agg by (rule sorted_desc_impact)
  from 1 2 3 4 show ?thesis by blast
qed

theorem aggregateUnregistered_entries_witness:
  "aggregateUnregistered example_deals =
     [\<lparr>entry_cost_type = ''INA'', impact = 1050, deal_count = 2, deals = [''D3'', ''D4'']\<rparr>,
      \<lparr>entry_cost_type = ''INS'', impact = 625, deal_count = 3, deals = [''D1'', ''D2'', ''D4'']\<rparr>] \<and>
   distinct (map entry_cost_type (aggregateUnregistered example_deals)) \<and>
   sorted_wrt (\<lambda>a b. impact a \<ge> impact b) (aggregateUnregistered example_deals) \<and>
   fst ` set (unregistered_of ''INS'' example_deals) = {''D1'', ''D2'', ''D4''}"
proof -
  have v: "aggregateUnregistered example_deals =
     [\<lparr>entry_cost_type = ''INA'', impact = 1050, deal_count = 2, deals = [''D3'', ''D4'']\<rparr>,
      \<lparr>entry_cost_type = ''INS'', impact = 625, deal_count = 3, deals = [''D1'', ''D2'', ''D4'']\<rparr>]"
    by code_simp
  let ?e = "\<lparr>entry_cost_type = ''INS'', impact = 625, deal_count = 3, deals = [''D1'', ''D2'', ''D4'']\<rparr>"
  have "?e \<in> set (aggregateUnregistered example_deals)" by (simp add: v)
  with aggregateUnregistered_entries[of example_deals]
  have "set (deals ?e) = fst ` set (unregistered_of (entry_cost_type ?e) example_deals)"
    and "distinct (map entry_cost_type (aggregateUnregistered example_deals))"
    and "sorted_wrt (\<lambda>a b. impact a \<ge> impact b) (aggregateUnregistered example_deals)"
    by blast+
  then show ?thesis using v by auto
qed

section \<open>Properties of the modelled backend\<close>

subsection \<open>Rule engine\<close>

lemma zero_and_lock_cells:
  "cells (zero_and_lock c row) c' =
     (if c' = c \<and> \<not> locked row c then Some 0 else cells row c')"
  by (simp add: zero_and_lock_def assign_cell_def)

lemma zero_and_lock_locked:
  "locked (zero_and_lock c row) c' = (c' = c \<or> locked row c')"
  by (simp add: zero_and_lock_def assign_cell_def)

lemma assign_cell_locked_all:
  "\<forall>c. locked row c \<Longrightarrow> assign_cell c v row = row"
  by (simp add: assign_cell_def)

lemma rule1_midlands:
  assumes "toUpperCase (trim (dealProduct raw)) = ''MIDLANDS''"
  shows "cells (rule1 raw blank_row) c = Some 0" "locked (rule1 raw blank_row) c"
  using assms by (cases c; simp add: rule1_def zero_and_lock_cells zero_and_lock_locked blank_row_def)+

lemma rule2_keeps:
  "(\<forall>c. locked row c) \<Longrightarrow> (\<forall>c. cells row c = Some 0) \<Longrightarrow>
   (\<forall>c. locked (rule2 raw row) c) \<and> (\<forall>c. cells (rule2 raw row) c = Some 0)"
  by (simp add: rule2_def zero_and_lock_cells zero_and_lock_locked)

text \<open>
  Claim C2. For every raw deal record whose product, trimmed and compared without regard
  to case, is MIDLANDS, the row the rule engine assembles has columns E to K all equal
  to 0 and locked, and column L (TOTAL USD) equal to 0, whatever the cost index holds
  for the deal.
\<close>

theorem midlands_row_all_zero:
  assumes "toUpperCase (trim (dealProduct raw)) = ''MIDLANDS''"
  shows "(\<forall>c. cells (applyRules entries hs raw) c = Some 0) \<and>
         (\<forall>c. locked (applyRules entries hs raw) c) \<and>
         totalUsd (applyRules entries hs raw) = 0"
proof -
  let ?r2 = "rule2 raw (rule1 raw blank_row)"
  have l2: "\<forall>c. locked ?r2 c" and c2: "\<forall>c. cells ?r2 c = Some 0"
    using rule2_keeps[of "rule1 raw blank_row" raw] rule1_midlands[OF assms] by blast+
  have r5: "rule5 entries raw (rule4 entries raw (rule3 entries raw ?r2)) = ?r2"
    using l2 by (simp add: rule3_def rule4_def rule5_def assign_cell_locked_all)
  have a: "applyRules entries hs raw = rule8 hs raw (rule7 hs raw (rule6 ?r2))"
    by (simp add: applyRules_def r5)
  have "cells (applyRules entries hs raw) c = Some 0" for c
    using c2 by (simp add: a rule8_def rule7_def rule6_def)
  moreover have "locked (applyRules entries hs raw) c" for c
    using l2 by (simp add: a rule8_def rule7_def rule6_def)
  moreover have "totalUsd (applyRules entries hs raw) = 0"
    using c2 by (simp add: a rule8_def rule7_def rule6_def or_zero_def)
  ultimately show ?thesis by blast
qed

theorem midlands_row_all_zero_witness:
  "toUpperCase (trim (dealProduct midlands_deal)) = ''MIDLANDS'' \<and>
   costIndex example_costs (dealNumber midlands_deal) ''BLC'' = 800 \<and>
   costIndex example_costs (dealNumber midlands_deal) ''CIN'' = 300 \<and>
   map (cells (applyRules example_costs [] midlands_deal)) [ColE, ColF, ColG, ColH, ColI, ColJ, ColK] =
     replicate 7 (Some 0) \<and>
   totalUsd (applyRules example_costs [] midlands_deal) = 0"
proof -
  have p: "toUpperCase (trim (dealProduct midlands_deal)) = ''MIDLANDS''" by code_simp
  have c: "costIndex example_costs (dealNumber midlands_deal) ''BLC'' = 800"
    "costIndex example_costs (dealNumber midlands_deal) ''CIN'' = 300"
    by (simp_all add: costIndex_def example_costs_def midlands_deal_def)
  from midlands_row_all_zero[OF p, of example_costs "[]"] p c show ?thesis
    by (simp add: numeral_eq_Suc)
qed

subsection \<open>Error responses\<close>

text \<open>
  Claim C7. For every request that fails validation the response has a 4xx status (400
  for an invalid file format) and a body with an \<^verbatim>\<open>error\<close> field that holds the
  message; it is not a success response, and \<^verbatim>\<open>downloadFile\<close> raises the message.
\<close>

theorem validation_failure_response:
  assumes "is_validation_failure f"
  shows "400 \<le> status_code (error_response f) \<and> status_code (error_response f) < 500 \<and>
         (f = FailInvalidFileFormat \<longrightarrow> status_code (error_response f) = 400) \<and>
         error_field (error_response f) = Some (failure_message f) \<and>
         failure_message f \<noteq> [] \<and>
         \<not> response_ok (error_response f) \<and>
         downloadFile_check (error_response f) = Inl (failure_message f)"
  using assms by (cases f) (simp_all add: error_response_def response_ok_def downloadFile_check_def)

theorem validation_failure_response_witness:
  "is_validation_failure FailInvalidFileFormat \<and>
   error_response FailInvalidFileFormat = \<lparr>status_code = 400, error_field = Some ''Invalid file format''\<rparr> \<and>
   \<not> response_ok (error_response FailInvalidFileFormat) \<and>
   downloadFile_check (error_response FailInvalidFileFormat) = Inl ''Invalid file format''"
proof -
  have v: "is_validation_failure FailInvalidFileFormat" by simp
  have e: "error_response FailInvalidFileFormat = \<lparr>status_code = 400, error_field = Some ''Invalid file format''\<rparr>"
    by (simp add: error_response_def)
  from validation_failure_response[OF v] v e show ?thesis by simp
qed

subsection \<open>Token store\<close>

lemma serve_fresh: "tokens_fresh s \<Longrightarrow> tokens_fresh (serve q s)"
  by (cases q) (auto simp: tokens_fresh_def publish_def less_Suc_eq)

lemma serve_keeps: "tokens_fresh s \<Longrightarrow> stored s t = Some r \<Longrightarrow> stored (serve q s) t = Some r"
  by (cases q) (auto simp: tokens_fresh_def publish_def)

lemma fold_serve_fresh: "tokens_fresh s \<Longrightarrow> tokens_fresh (fold serve reqs s)"
  by (induction reqs arbitrary: s) (simp_all add: serve_fresh)

lemma fold_serve_keeps:
  "tokens_fresh s \<Longrightarrow> stored s t = Some r \<Longrightarrow> stored (fold serve reqs s) t = Some r"
  by (induction reqs arbitrary: s) (simp_all add: serve_fresh serve_keeps)

lemma reachable_fresh: "tokens_fresh (reachable_store reqs)"
  unfolding reachable_store_def by (rule fold_serve_fresh) (simp add: tokens_fresh_def empty_store_def)

text \<open>
  Claim C8. For every token stored in a store the backend can reach, and every format,
  an export is the rendering of the stored result, and exporting again after any further
  requests (reconciliations and exports; nothing is evicted) gives the same bytes.
\<close>

theorem export_twice_identical:
  assumes "stored (reachable_store before) tok = Some r"
  shows "export_by_token render fmt tok (reachable_store before) = Inr (render fmt r) \<and>
         export_by_token render fmt tok (fold serve between (reachable_store before)) =
           export_by_token render fmt tok (reachable_store before)"
  using assms fold_serve_keeps[OF reachable_fresh assms, of between]
  by (simp add: export_by_token_def)

theorem export_twice_identical_witness:
  "stored (reachable_store [Reconcile [1, 2, 3], Reconcile [4]]) 0 = Some [1, 2, 3::nat] \<and>
   export_by_token example_render DelimitedText 0
     (fold serve [Export Spreadsheet 0, Reconcile [9], Export DelimitedText 1]
        (reachable_store [Reconcile [1, 2, 3], Reconcile [4]])) = Inr [44, 1, 2, 3] \<and>
   export_by_token example_render DelimitedText 0 (reachable_store [Reconcile [1, 2, 3], Reconcile [4]]) =
     Inr [44, 1, 2, 3]"
proof -
  have s: "stored (reachable_store [Reconcile [1, 2, 3], Reconcile [4]]) 0 = Some [1, 2, 3::nat]"
    by (simp add: reachable_store_def empty_store_def publish_def)
  from export_twice_identical[OF s, of example_render DelimitedText
      "[Export Spreadsheet 0, Reconcile [9], Export DelimitedText 1]"] s
  show ?thesis by (simp add: example_render_def)
qed

end
